theory Spec2Isabelle
  imports Complex_Main "HOL-Library.AList"
begin

section \<open>JavaScript values\<close>

text \<open>
  A JavaScript number is modelled as the real number it denotes, one of the two
  infinities, or NaN.
\<close>

datatype jsnum = Fin real | PInf | NInf | NaN

datatype jsval =
    JUndefined
  | JNull
  | JBool bool
  | JNum jsnum
  | JStr string
  | JArr "jsval list"
  | JObj "(string \<times> jsval) list"

text \<open>The \<open>typeof\<close> operator; note that \<open>typeof null\<close> and \<open>typeof []\<close> are both \<open>object\<close>.\<close>

fun typeof :: "jsval \<Rightarrow> string" where
  "typeof JUndefined = ''undefined''"
| "typeof JNull = ''object''"
| "typeof (JBool b) = ''boolean''"
| "typeof (JNum n) = ''number''"
| "typeof (JStr s) = ''string''"
| "typeof (JArr xs) = ''object''"
| "typeof (JObj kvs) = ''object''"

text \<open>Truthiness, as used by \<open>!v\<close>, \<open>if (v)\<close> and \<open>v || w\<close>.\<close>

fun truthy :: "jsval \<Rightarrow> bool" where
  "truthy JUndefined = False"
| "truthy JNull = False"
| "truthy (JBool b) = b"
| "truthy (JNum (Fin r)) = (r \<noteq> 0)"
| "truthy (JNum NaN) = False"
| "truthy (JNum PInf) = True"
| "truthy (JNum NInf) = True"
| "truthy (JStr s) = (s \<noteq> [])"
| "truthy (JArr xs) = True"
| "truthy (JObj kvs) = True"

fun isArray :: "jsval \<Rightarrow> bool" where
  "isArray (JArr xs) = True"
| "isArray v = False"

text \<open>
  \<open>isNaN(v)\<close>. The validator evaluates it only behind \<open>typeof v !== 'number' ||\<close>, that is
  on numbers, where it tells whether the number is NaN. Its answers on other values are
  never read.
\<close>

fun isNaN :: "jsval \<Rightarrow> bool" where
  "isNaN (JNum n) = (n = NaN)"
| "isNaN JNull = False"
| "isNaN (JBool b) = False"
| "isNaN v = True"

text \<open>Decimal rendering of an array index, the property key under which an element lives.\<close>

definition digit_char :: "nat \<Rightarrow> char" where
  "digit_char d = char_of (of_char (CHR ''0'') + d)"

function show_nat :: "nat \<Rightarrow> string" where
  "show_nat n = (if n < 10 then [digit_char n] else show_nat (n div 10) @ [digit_char (n mod 10)])"
  by pat_completeness auto
termination
  by (relation "measure (\<lambda>n. n)") auto

declare show_nat.simps [simp del]

text \<open>
  Own enumerable properties, as copied by object spread \<open>{...v}\<close>: the entries of an
  object, the indexed elements of an array, the indexed characters of a string, and
  nothing for any other value.
\<close>

fun spread :: "jsval \<Rightarrow> (string \<times> jsval) list" where
  "spread (JObj kvs) = kvs"
| "spread (JArr xs) = zip (map show_nat [0..<length xs]) xs"
| "spread (JStr s) = zip (map show_nat [0..<length s]) (map (\<lambda>c. JStr [c]) s)"
| "spread v = []"

text \<open>
  The \<open>in\<close> operator for the property names the loader asks about. An array has its
  indices and \<open>length\<close>; inherited prototype members are not modelled (none of them is
  a schema field). The loader applies \<open>in\<close> to objects and arrays only.
\<close>

fun has_field :: "jsval \<Rightarrow> string \<Rightarrow> bool" where
  "has_field (JObj kvs) k = (map_of kvs k \<noteq> None)"
| "has_field (JArr xs) k = (k = ''length'' \<or> k \<in> set (map show_nat [0..<length xs]))"
| "has_field v k = False"

text \<open>
  Property read \<open>v.k\<close> for the properties the loader reads (none of them is an index or
  \<open>length\<close>); a missing property reads \<open>undefined\<close>.
\<close>

fun get_field :: "jsval \<Rightarrow> string \<Rightarrow> jsval" where
  "get_field (JObj kvs) k = (case map_of kvs k of None \<Rightarrow> JUndefined | Some v \<Rightarrow> v)"
| "get_field v k = JUndefined"

text \<open>The number held by a value that has passed the \<open>typeof v === 'number'\<close> test.\<close>

fun num_of :: "jsval \<Rightarrow> jsnum" where
  "num_of (JNum n) = n"
| "num_of v = NaN"

subsection \<open>Arithmetic on numbers\<close>

text \<open>
  Numbers are IEEE 754 doubles. A finite number is modelled by the real it denotes. The
  result of \<open>+\<close>, \<open>*\<close>, \<open>/\<close> and \<open>Math.sqrt\<close> is the exact result rounded to a double: an
  exact result of magnitude \<open>2^1024\<close> or more overflows to an infinity, one of magnitude
  \<open>2^-1075\<close> or less underflows to zero, and one in between is rounded by the engine. How
  the engine rounds there, and what its library functions \<open>Math.atan2\<close>, \<open>Math.tan\<close> and
  \<open>Math.log\<close> return, is a parameter of the model: nothing is assumed of it, and every
  theorem about the loader holds for every engine. Negation and \<open>Math.abs\<close> are exact.
  The sign of zero is not modelled.
\<close>

record engine =
  round_nearest :: "real \<Rightarrow> jsnum"
  engine_atan2 :: "jsnum \<Rightarrow> jsnum \<Rightarrow> jsnum"
  engine_tan :: "jsnum \<Rightarrow> jsnum"
  engine_log :: "jsnum \<Rightarrow> jsnum"

definition overflow_threshold :: real where
  "overflow_threshold = 2 ^ 1024"

definition underflow_threshold :: real where
  "underflow_threshold = 1 / 2 ^ 1075"

definition to_double :: "engine \<Rightarrow> real \<Rightarrow> jsnum" where
  "to_double fp x =
     (if overflow_threshold \<le> \<bar>x\<bar> then (if 0 < x then PInf else NInf)
      else if \<bar>x\<bar> \<le> underflow_threshold then Fin 0
      else round_nearest fp x)"

fun num_neg :: "jsnum \<Rightarrow> jsnum" where
  "num_neg (Fin a) = Fin (- a)"
| "num_neg PInf = NInf"
| "num_neg NInf = PInf"
| "num_neg NaN = NaN"

fun num_add :: "engine \<Rightarrow> jsnum \<Rightarrow> jsnum \<Rightarrow> jsnum" where
  "num_add fp (Fin a) (Fin b) = to_double fp (a + b)"
| "num_add fp NaN y = NaN"
| "num_add fp x NaN = NaN"
| "num_add fp PInf NInf = NaN"
| "num_add fp NInf PInf = NaN"
| "num_add fp PInf y = PInf"
| "num_add fp NInf y = NInf"
| "num_add fp x PInf = PInf"
| "num_add fp x NInf = NInf"

fun num_mul :: "engine \<Rightarrow> jsnum \<Rightarrow> jsnum \<Rightarrow> jsnum" where
  "num_mul fp (Fin a) (Fin b) = to_double fp (a * b)"
| "num_mul fp NaN y = NaN"
| "num_mul fp x NaN = NaN"
| "num_mul fp PInf (Fin b) = (if b = 0 then NaN else if 0 < b then PInf else NInf)"
| "num_mul fp NInf (Fin b) = (if b = 0 then NaN else if 0 < b then NInf else PInf)"
| "num_mul fp (Fin a) PInf = (if a = 0 then NaN else if 0 < a then PInf else NInf)"
| "num_mul fp (Fin a) NInf = (if a = 0 then NaN else if 0 < a then NInf else PInf)"
| "num_mul fp PInf PInf = PInf"
| "num_mul fp PInf NInf = NInf"
| "num_mul fp NInf PInf = NInf"
| "num_mul fp NInf NInf = PInf"

fun num_div :: "engine \<Rightarrow> jsnum \<Rightarrow> jsnum \<Rightarrow> jsnum" where
  "num_div fp (Fin a) (Fin b) =
     (if b \<noteq> 0 then to_double fp (a / b)
      else if a = 0 then NaN else if 0 < a then PInf else NInf)"
| "num_div fp NaN y = NaN"
| "num_div fp x NaN = NaN"
| "num_div fp (Fin a) PInf = Fin 0"
| "num_div fp (Fin a) NInf = Fin 0"
| "num_div fp PInf (Fin b) = (if 0 \<le> b then PInf else NInf)"
| "num_div fp NInf (Fin b) = (if 0 \<le> b then NInf else PInf)"
| "num_div fp PInf PInf = NaN"
| "num_div fp PInf NInf = NaN"
| "num_div fp NInf PInf = NaN"
| "num_div fp NInf NInf = NaN"

fun Math_abs :: "jsnum \<Rightarrow> jsnum" where
  "Math_abs (Fin a) = Fin \<bar>a\<bar>"
| "Math_abs PInf = PInf"
| "Math_abs NInf = PInf"
| "Math_abs NaN = NaN"

fun Math_sqrt :: "engine \<Rightarrow> jsnum \<Rightarrow> jsnum" where
  "Math_sqrt fp (Fin a) = (if a < 0 then NaN else to_double fp (sqrt a))"
| "Math_sqrt fp PInf = PInf"
| "Math_sqrt fp NInf = NaN"
| "Math_sqrt fp NaN = NaN"

subsection \<open>An engine for the sample inputs\<close>

text \<open>
  To run the model on a sample input an engine has to be chosen. The one below rounds
  nothing between the two thresholds and computes the library functions exactly. The
  sample inputs are chosen so that every value stated for them is a double, and the one
  double arithmetic yields too.
\<close>

fun exact_log :: "jsnum \<Rightarrow> jsnum" where
  "exact_log (Fin a) = (if a < 0 then NaN else if a = 0 then NInf else Fin (ln a))"
| "exact_log PInf = PInf"
| "exact_log NInf = NaN"
| "exact_log NaN = NaN"

text \<open>The tangent has no value where the cosine vanishes; the exact engine answers NaN there.\<close>

fun exact_tan :: "jsnum \<Rightarrow> jsnum" where
  "exact_tan (Fin a) = (if cos a = 0 then NaN else Fin (tan a))"
| "exact_tan v = NaN"

text \<open>The two-argument arctangent on reals: the angle of the point \<open>(x, y)\<close> in \<open>(-pi, pi]\<close>.\<close>

definition atan2 :: "real \<Rightarrow> real \<Rightarrow> real" where
  "atan2 y x =
     (if 0 < x then arctan (y / x)
      else if x < 0 then (if 0 \<le> y then arctan (y / x) + pi else arctan (y / x) - pi)
      else if 0 < y then pi / 2
      else if y < 0 then - (pi / 2)
      else 0)"

fun exact_atan2 :: "jsnum \<Rightarrow> jsnum \<Rightarrow> jsnum" where
  "exact_atan2 (Fin y) (Fin x) = Fin (atan2 y x)"
| "exact_atan2 NaN x = NaN"
| "exact_atan2 y NaN = NaN"
| "exact_atan2 (Fin y) PInf = Fin 0"
| "exact_atan2 (Fin y) NInf = (if 0 \<le> y then Fin pi else Fin (- pi))"
| "exact_atan2 PInf (Fin x) = Fin (pi / 2)"
| "exact_atan2 NInf (Fin x) = Fin (- (pi / 2))"
| "exact_atan2 PInf PInf = Fin (pi / 4)"
| "exact_atan2 PInf NInf = Fin (3 * pi / 4)"
| "exact_atan2 NInf PInf = Fin (- (pi / 4))"
| "exact_atan2 NInf NInf = Fin (- (3 * pi / 4))"

definition exact_engine :: engine where
  "exact_engine = \<lparr>round_nearest = Fin, engine_atan2 = exact_atan2, engine_tan = exact_tan,
     engine_log = exact_log\<rparr>"

section \<open>DataLoader: event validation\<close>

datatype error =
    EventNotObject
  | MissingField string
  | VertexNotObject
  | VertexNotNumbers
  | ParticlesNotArray
  | ParticleNotObject nat
  | ParticleMissingField nat string
  | ParticleFieldNotNumber nat string
  | TrajectoryNotArray nat
  | TrajectoryPointNotObject nat nat
  | TrajectoryPointNotNumbers nat nat

text \<open>The schema tables of the constructor.\<close>

definition event_required :: "string list" where
  "event_required = [''event_id'', ''particles'', ''vertex'']"

definition particle_required :: "string list" where
  "particle_required = [''id'', ''type'', ''px'', ''py'', ''pz'', ''E'']"

definition numericFields :: "string list" where
  "numericFields = [''px'', ''py'', ''pz'', ''E'']"

definition point_obj :: "jsnum \<Rightarrow> jsnum \<Rightarrow> jsnum \<Rightarrow> jsval" where
  "point_obj a b c = JObj [(''x'', JNum a), (''y'', JNum b), (''z'', JNum c)]"

text \<open>
  \<open>generateSimpleTrajectory(particle)\<close>: a single point at the origin when the computed
  magnitude of the momentum is zero, otherwise six points, the products of the distances
  \<open>(i / 5) * 5.0\<close> with the momentum divided by its magnitude.
\<close>

definition generateSimpleTrajectory :: "engine \<Rightarrow> jsval \<Rightarrow> jsval" where
  "generateSimpleTrajectory fp particle =
     (let px = num_of (get_field particle ''px'');
          py = num_of (get_field particle ''py'');
          pz = num_of (get_field particle ''pz'');
          momentum = Math_sqrt fp (num_add fp (num_add fp (num_mul fp px px) (num_mul fp py py)) (num_mul fp pz pz))
      in if momentum = Fin 0 then JArr [point_obj (Fin 0) (Fin 0) (Fin 0)]
         else
           let dirX = num_div fp px momentum;
               dirY = num_div fp py momentum;
               dirZ = num_div fp pz momentum;
               maxDistance = Fin 5;
               numPoints = 6
           in JArr (map (\<lambda>i. let distance = num_mul fp (num_div fp (Fin (real i)) (Fin (real (numPoints - 1)))) maxDistance
                               in point_obj (num_mul fp distance dirX) (num_mul fp distance dirY) (num_mul fp distance dirZ))
                        [0..<numPoints]))"

text \<open>The callback of \<open>trajectory.map\<close>: check one point and copy its three coordinates.\<close>

definition validatePoint :: "nat \<Rightarrow> jsval \<Rightarrow> nat \<Rightarrow> error + jsval" where
  "validatePoint index point pointIndex =
     (if \<not> truthy point \<or> typeof point \<noteq> ''object'' then Inl (TrajectoryPointNotObject index pointIndex)
      else if typeof (get_field point ''x'') \<noteq> ''number'' \<or> typeof (get_field point ''y'') \<noteq> ''number''
              \<or> typeof (get_field point ''z'') \<noteq> ''number''
        then Inl (TrajectoryPointNotNumbers index pointIndex)
      else Inr (JObj [(''x'', get_field point ''x''), (''y'', get_field point ''y''), (''z'', get_field point ''z'')]))"

text \<open>\<open>Array.prototype.map\<close> with a callback that may throw: the first throw ends the loop.\<close>

fun validatePoints :: "nat \<Rightarrow> jsval list \<Rightarrow> nat \<Rightarrow> error + jsval list" where
  "validatePoints index [] pointIndex = Inr []"
| "validatePoints index (point # rest) pointIndex =
     (case validatePoint index point pointIndex of
        Inl e \<Rightarrow> Inl e
      | Inr q \<Rightarrow> (case validatePoints index rest (Suc pointIndex) of
                    Inl e \<Rightarrow> Inl e
                  | Inr qs \<Rightarrow> Inr (q # qs)))"

text \<open>The block of \<open>validateParticle\<close> that calculates the derived properties.\<close>

definition derived_of :: "engine \<Rightarrow> jsval \<Rightarrow> jsval" where
  "derived_of fp particle =
     (let px = num_of (get_field particle ''px'');
          py = num_of (get_field particle ''py'');
          pz = num_of (get_field particle ''pz'');
          pt = Math_sqrt fp (num_add fp (num_mul fp px px) (num_mul fp py py));
          momentum = Math_sqrt fp (num_add fp (num_add fp (num_mul fp px px) (num_mul fp py py)) (num_mul fp pz pz));
          eta = (if pz \<noteq> Fin 0
                 then num_neg (engine_log fp (engine_tan fp (num_div fp (engine_atan2 fp pt (Math_abs pz)) (Fin 2))))
                 else Fin 0);
          phi = engine_atan2 fp py px
      in JObj [(''pt'', JNum pt), (''momentum'', JNum momentum), (''eta'', JNum eta), (''phi'', JNum phi)])"

definition validateParticle :: "engine \<Rightarrow> jsval \<Rightarrow> nat \<Rightarrow> error + jsval" where
  "validateParticle fp particle index =
     (if \<not> truthy particle \<or> typeof particle \<noteq> ''object'' then Inl (ParticleNotObject index)
      else case find (\<lambda>field. \<not> has_field particle field) particle_required of
        Some field \<Rightarrow> Inl (ParticleMissingField index field)
      | None \<Rightarrow>
        (case find (\<lambda>field. typeof (get_field particle field) \<noteq> ''number'' \<or> isNaN (get_field particle field))
                   numericFields of
           Some field \<Rightarrow> Inl (ParticleFieldNotNumber index field)
         | None \<Rightarrow>
           (let trajectory = get_field particle ''trajectory'';
                validated =
                  (if truthy trajectory
                   then (case trajectory of
                           JArr points \<Rightarrow> (case validatePoints index points 0 of
                                             Inl e \<Rightarrow> Inl e
                                           | Inr qs \<Rightarrow> Inr (JArr qs))
                         | _ \<Rightarrow> Inl (TrajectoryNotArray index))
                   else Inr (generateSimpleTrajectory fp particle))
            in case validated of
                 Inl e \<Rightarrow> Inl e
               | Inr trajectory' \<Rightarrow>
                   Inr (JObj (AList.update ''derived'' (derived_of fp particle)
                               (AList.update ''trajectory'' trajectory' (spread particle)))))))"

fun validateParticles :: "engine \<Rightarrow> jsval list \<Rightarrow> nat \<Rightarrow> error + jsval list" where
  "validateParticles fp [] index = Inr []"
| "validateParticles fp (particle # rest) index =
     (case validateParticle fp particle index of
        Inl e \<Rightarrow> Inl e
      | Inr v \<Rightarrow> (case validateParticles fp rest (Suc index) of
                    Inl e \<Rightarrow> Inl e
                  | Inr vs \<Rightarrow> Inr (v # vs)))"

text \<open>
  \<open>validateEvent(eventData)\<close>. The timestamp \<open>new Date().toISOString()\<close> is the parameter
  \<open>now\<close>, and \<open>fp\<close> is the engine whose arithmetic evaluates the formulas. A thrown
  \<open>Error\<close> is the \<open>Inl\<close> result.
\<close>

definition validateEvent :: "engine \<Rightarrow> string \<Rightarrow> jsval \<Rightarrow> error + jsval" where
  "validateEvent fp now eventData =
     (if \<not> truthy eventData \<or> typeof eventData \<noteq> ''object'' then Inl EventNotObject
      else case find (\<lambda>field. \<not> has_field eventData field) event_required of
        Some field \<Rightarrow> Inl (MissingField field)
      | None \<Rightarrow>
        (let vertex = get_field eventData ''vertex'' in
         if \<not> truthy vertex \<or> typeof vertex \<noteq> ''object'' then Inl VertexNotObject
         else if typeof (get_field vertex ''x'') \<noteq> ''number'' \<or> typeof (get_field vertex ''y'') \<noteq> ''number''
                 \<or> typeof (get_field vertex ''z'') \<noteq> ''number''
           then Inl VertexNotNumbers
         else case get_field eventData ''particles'' of
           JArr particles \<Rightarrow>
             (case validateParticles fp particles 0 of
                Inl e \<Rightarrow> Inl e
              | Inr validatedParticles \<Rightarrow>
                  Inr (JObj (AList.update ''metadata''
                        (JObj (AList.update ''validated_at'' (JStr now)
                                (AList.update ''particle_count'' (JNum (Fin (real (length validatedParticles))))
                                  (spread (get_field eventData ''metadata'')))))
                        (AList.update ''particles'' (JArr validatedParticles) (spread eventData)))))
         | _ \<Rightarrow> Inl ParticlesNotArray))"

section \<open>ParticleTracks: rendering, animation, interaction and filters\<close>

text \<open>
  The renderer reads validated particles. A particle is a record of the properties the
  renderer reads; its numbers are finite reals. A trajectory may be absent.
\<close>

type_synonym vec3 = "real \<times> real \<times> real"

record particle =
  p_id :: int
  p_type :: string
  p_px :: real
  p_py :: real
  p_pz :: real
  p_E :: real
  p_trajectory :: "vec3 list option"

text \<open>
  What the renderer reads of the value it finds in \<open>PARTICLE_CONFIG\<close>: the colour, as the
  number of its hexadecimal literal, and the base thickness; the display name and symbol
  of an entry are never read. A property that the value found does not have reads
  \<open>undefined\<close>, which is \<open>None\<close>.
\<close>

record config =
  cfg_color :: "nat option"
  cfg_thickness :: "real option"

definition PARTICLE_CONFIG :: "(string \<times> config) list" where
  "PARTICLE_CONFIG =
     [(''electron'', \<lparr>cfg_color = Some 65280, cfg_thickness = Some (5 / 2)\<rparr>),
      (''positron'', \<lparr>cfg_color = Some 65416, cfg_thickness = Some (5 / 2)\<rparr>),
      (''muon'', \<lparr>cfg_color = Some 16711680, cfg_thickness = Some 3\<rparr>),
      (''photon'', \<lparr>cfg_color = Some 16776960, cfg_thickness = Some 2\<rparr>),
      (''pion_plus'', \<lparr>cfg_color = Some 33023, cfg_thickness = Some 2\<rparr>),
      (''pion_minus'', \<lparr>cfg_color = Some 8388863, cfg_thickness = Some 2\<rparr>),
      (''kaon_plus'', \<lparr>cfg_color = Some 16744448, cfg_thickness = Some 2\<rparr>),
      (''kaon_minus'', \<lparr>cfg_color = Some 16728064, cfg_thickness = Some 2\<rparr>),
      (''proton'', \<lparr>cfg_color = Some 16711808, cfg_thickness = Some (5 / 2)\<rparr>),
      (''neutron'', \<lparr>cfg_color = Some 8421504, cfg_thickness = Some 2\<rparr>),
      (''unknown'', \<lparr>cfg_color = Some 13421772, cfg_thickness = Some (3 / 2)\<rparr>)]"

text \<open>
  The table is an object literal, so a lookup that finds no entry goes on to the members
  of \<open>Object.prototype\<close>. Each of these names holds a function (\<open>__proto__\<close> holds the
  prototype object itself): a truthy value that has neither a colour nor a thickness.
\<close>

definition Object_prototype_members :: "string list" where
  "Object_prototype_members =
     [''constructor'', ''__defineGetter__'', ''__defineSetter__'', ''hasOwnProperty'',
      ''__lookupGetter__'', ''__lookupSetter__'', ''isPrototypeOf'', ''propertyIsEnumerable'',
      ''toString'', ''valueOf'', ''__proto__'', ''toLocaleString'']"

text \<open>\<open>PARTICLE_CONFIG[particle.type] || PARTICLE_CONFIG.unknown\<close>\<close>

definition config_of :: "string \<Rightarrow> config" where
  "config_of t = (case map_of PARTICLE_CONFIG t of
                    Some c \<Rightarrow> c
                  | None \<Rightarrow>
                      if t \<in> set Object_prototype_members
                      then \<lparr>cfg_color = None, cfg_thickness = None\<rparr>
                      else \<lparr>cfg_color = Some 13421772, cfg_thickness = Some (3 / 2)\<rparr>)"

record trackData =
  td_particle :: particle
  td_config :: config
  td_trajectory :: "vec3 list"
  td_pt :: real
  td_momentum :: real
  td_index :: nat

text \<open>
  A scene object. The geometry keeps the points it was built from (and the tube radius,
  \<open>None\<close> when it is not a number); the cone of a direction arrow has fixed dimensions.
  A material has a colour and an opacity; \<open>emissive\<close> is \<open>None\<close> for the line material,
  which has no such property. An opacity of \<open>None\<close> stands for a value that is not a
  number (\<open>NaN\<close> or \<open>undefined\<close>). A material created with the colour \<open>undefined\<close> keeps
  the default colour of the library, white.
\<close>

datatype geometry =
    TubeGeometry "vec3 list" "real option"
  | LineGeometry "vec3 list"
  | ConeGeometry

record material =
  color :: nat
  opacity :: "real option"
  emissive :: "nat option"

record userData =
  ud_particle :: particle
  ud_trackData :: trackData
  originalColor :: "nat option"
  originalOpacity :: "real option"
  isArrow :: bool

record trackObject =
  geometry :: geometry
  material :: material
  userData :: userData
  visible :: bool
  scale :: real
  position :: vec3

text \<open>An entry of \<open>animatedTracks\<close>; \<open>mesh\<close> is the index of the mesh in \<open>trackObjects\<close>.\<close>

record animatedTrack =
  mesh :: nat
  originalScale :: real
  delay :: real

text \<open>The custom events dispatched on \<open>window\<close>.\<close>

datatype notification =
    ParticleHover particle
  | ParticleHoverEnd
  | ParticleSelect particle
  | ParticleDeselect
  | TrackAnimationComplete

text \<open>
  The state of a \<open>ParticleTracks\<close> instance. \<open>hoveredTrack\<close> and \<open>selectedTrack\<close> refer to
  objects of \<open>trackObjects\<close> by index; the children of \<open>tracksGroup\<close> are the same objects in
  the same order and are not kept apart. \<open>frameRequests\<close> counts the callbacks handed to
  \<open>requestAnimationFrame\<close>, \<open>cursor\<close> is \<open>document.body.style.cursor\<close>, and \<open>dispatched\<close> is
  the sequence of events dispatched so far.
\<close>

record tracks_state =
  tracks :: "trackData list"
  trackObjects :: "trackObject list"
  animatedTracks :: "animatedTrack list"
  hoveredTrack :: "nat option"
  selectedTrack :: "nat option"
  useSimplifiedRendering :: bool
  animationProgress :: real
  isAnimating :: bool
  animationStartTime :: real
  frameRequests :: nat
  cursor :: string
  dispatched :: "notification list"

text \<open>Set by the constructor and never assigned again.\<close>

definition maxTracks :: nat where
  "maxTracks = 500"

definition animationDuration :: real where
  "animationDuration = 2000"

definition constructor :: tracks_state where
  "constructor = \<lparr>tracks = [], trackObjects = [], animatedTracks = [], hoveredTrack = None,
     selectedTrack = None, useSimplifiedRendering = False, animationProgress = 0,
     isAnimating = False, animationStartTime = 0, frameRequests = 0, cursor = '''',
     dispatched = []\<rparr>"

text \<open>A write to a property of the object at an index; the indices in use are always valid.\<close>

definition modify :: "nat \<Rightarrow> ('a \<Rightarrow> 'a) \<Rightarrow> 'a list \<Rightarrow> 'a list" where
  "modify i f xs = (if i < length xs then xs[i := f (xs ! i)] else xs)"

subsection \<open>Building the tracks\<close>

definition clearTracks :: "tracks_state \<Rightarrow> tracks_state" where
  "clearTracks s = s\<lparr>tracks := [], animatedTracks := [], hoveredTrack := None,
                      selectedTrack := None, trackObjects := []\<rparr>"

definition createDirectionArrow :: "trackData \<Rightarrow> vec3 list \<Rightarrow> tracks_state \<Rightarrow> tracks_state" where
  "createDirectionArrow td pts s =
     (if length pts < 2 then s
      else
        let endPoint = pts ! (length pts - 1);
            arrow = \<lparr>geometry = ConeGeometry,
                     material = \<lparr>color = (case cfg_color (td_config td) of Some c \<Rightarrow> c | None \<Rightarrow> 16777215),
                                 opacity = Some (9 / 10), emissive = Some 0\<rparr>,
                     userData = \<lparr>ud_particle = td_particle td, ud_trackData = td,
                                 originalColor = None, originalOpacity = None, isArrow = True\<rparr>,
                     visible = True, scale = 1, position = endPoint\<rparr>
        in s\<lparr>trackObjects := trackObjects s @ [arrow]\<rparr>)"

text \<open>
  \<open>createDetailedTrack\<close>; \<open>random\<close> is the value of \<open>Math.random()\<close>, which lies in
  \<open>[0, 1)\<close>. A thickness computed from a base thickness that is \<open>undefined\<close> is not a number.
\<close>

definition createDetailedTrack :: "trackData \<Rightarrow> real \<Rightarrow> tracks_state \<Rightarrow> tracks_state" where
  "createDetailedTrack td random s =
     (let pts = td_trajectory td;
          baseThickness = cfg_thickness (td_config td);
          momentumFactor = min (td_momentum td / 50) 2;
          thickness = (case baseThickness of
                         Some b \<Rightarrow> Some (b * (1 / 2 + momentumFactor * (1 / 2)))
                       | None \<Rightarrow> None);
          energyAlpha = min (p_E (td_particle td) / 100) 1 * (7 / 10) + 3 / 10;
          trackMesh = \<lparr>geometry = TubeGeometry pts (case thickness of
                                                       Some t \<Rightarrow> Some (t * (1 / 100))
                                                     | None \<Rightarrow> None),
                       material = \<lparr>color = (case cfg_color (td_config td) of Some c \<Rightarrow> c | None \<Rightarrow> 16777215),
                                   opacity = Some energyAlpha, emissive = Some 0\<rparr>,
                       userData = \<lparr>ud_particle = td_particle td, ud_trackData = td,
                                   originalColor = cfg_color (td_config td),
                                   originalOpacity = Some energyAlpha, isArrow = False\<rparr>,
                       visible = True, scale = 1, position = (0, 0, 0)\<rparr>;
          s1 = s\<lparr>animatedTracks := animatedTracks s
                     @ [\<lparr>mesh = length (trackObjects s), originalScale = 1, delay = random * 500\<rparr>]\<rparr>;
          s2 = s1\<lparr>trackObjects := trackObjects s1 @ [trackMesh]\<rparr>
      in createDirectionArrow td pts s2)"

text \<open>
  The loop \<open>for (let i = 0; i < trajectory.length; i += step)\<close> of \<open>createSimplifiedTrack\<close>.
  The code always enters it with a step of at least one.
\<close>

function simplifiedLoop :: "nat \<Rightarrow> nat \<Rightarrow> 'a list \<Rightarrow> 'a list" where
  "simplifiedLoop i step trajectory =
     (if i < length trajectory \<and> 0 < step
      then trajectory ! i # simplifiedLoop (i + step) step trajectory
      else [])"
  by pat_completeness auto
termination
  by (relation "measure (\<lambda>(i, step, trajectory). length trajectory - i)") auto

declare simplifiedLoop.simps [simp del]

text \<open>
  The points handed to the line geometry by \<open>createSimplifiedTrack\<close>: the sampled points
  and, when there is at least one, the final point of the trajectory after them.
\<close>

definition simplifiedPoints :: "'a list \<Rightarrow> 'a list" where
  "simplifiedPoints trajectory =
     (let step = max 1 (length trajectory div 8);
          sampled = simplifiedLoop 0 step trajectory
      in if length sampled > 0 then sampled @ [trajectory ! (length trajectory - 1)] else sampled)"

definition createSimplifiedTrack :: "trackData \<Rightarrow> tracks_state \<Rightarrow> tracks_state" where
  "createSimplifiedTrack td s =
     (let trackLine = \<lparr>geometry = LineGeometry (simplifiedPoints (td_trajectory td)),
                       material = \<lparr>color = (case cfg_color (td_config td) of Some c \<Rightarrow> c | None \<Rightarrow> 16777215),
                                   opacity = Some (8 / 10), emissive = None\<rparr>,
                       userData = \<lparr>ud_particle = td_particle td, ud_trackData = td,
                                   originalColor = cfg_color (td_config td),
                                   originalOpacity = Some (8 / 10), isArrow = False\<rparr>,
                       visible = True, scale = 1, position = (0, 0, 0)\<rparr>
      in s\<lparr>trackObjects := trackObjects s @ [trackLine]\<rparr>)"

text \<open>\<open>createParticleTrack\<close>. The vertex is passed in and never read.\<close>

definition createParticleTrack :: "particle \<Rightarrow> vec3 \<Rightarrow> nat \<Rightarrow> real \<Rightarrow> tracks_state \<Rightarrow> tracks_state" where
  "createParticleTrack p vertex index random s =
     (let cfg = config_of (p_type p);
          trajectory = (case p_trajectory p of Some t \<Rightarrow> t | None \<Rightarrow> [])
      in if length trajectory < 2 then s
         else
           let pt = sqrt (p_px p * p_px p + p_py p * p_py p);
               momentum = sqrt (p_px p * p_px p + p_py p * p_py p + p_pz p * p_pz p);
               td = \<lparr>td_particle = p, td_config = cfg, td_trajectory = trajectory,
                     td_pt = pt, td_momentum = momentum, td_index = index\<rparr>;
               s1 = s\<lparr>tracks := tracks s @ [td]\<rparr>
           in if useSimplifiedRendering s1 \<and> length trajectory > 10
              then createSimplifiedTrack td s1
              else createDetailedTrack td random s1)"

text \<open>
  \<open>particles.forEach((particle, index) => ...)\<close>; \<open>random index\<close> is the value
  \<open>Math.random()\<close> returns while the particle at that index is built.
\<close>

fun createParticleTracks :: "particle list \<Rightarrow> vec3 \<Rightarrow> nat \<Rightarrow> (nat \<Rightarrow> real) \<Rightarrow> tracks_state \<Rightarrow> tracks_state" where
  "createParticleTracks [] vertex index random s = s"
| "createParticleTracks (p # rest) vertex index random s =
     createParticleTracks rest vertex (Suc index) random (createParticleTrack p vertex index (random index) s)"

subsection \<open>The emergence animation\<close>

definition easeOutCubic :: "real \<Rightarrow> real" where
  "easeOutCubic t = 1 - (1 - t) ^ 3"

text \<open>\<open>animatedTracks.forEach(track => track.mesh.scale.setScalar(f track))\<close>\<close>

definition setScales :: "(animatedTrack \<Rightarrow> real) \<Rightarrow> animatedTrack list \<Rightarrow> trackObject list \<Rightarrow> trackObject list" where
  "setScales f ats objs = fold (\<lambda>track. modify (mesh track) (\<lambda>ob. ob\<lparr>scale := f track\<rparr>)) ats objs"

text \<open>\<open>animateFrame\<close>; \<open>currentTime\<close> is the value of \<open>performance.now()\<close>.\<close>

definition animateFrame :: "real \<Rightarrow> tracks_state \<Rightarrow> tracks_state" where
  "animateFrame currentTime s =
     (if \<not> isAnimating s then s
      else
        let elapsed = currentTime - animationStartTime s;
            s1 = s\<lparr>animationProgress := min (elapsed / animationDuration) 1\<rparr>;
            s2 = s1\<lparr>trackObjects :=
                      setScales (\<lambda>track. let adjustedProgress = max 0 ((elapsed - delay track) / animationDuration);
                                              scale = min adjustedProgress 1
                                          in easeOutCubic scale)
                                (animatedTracks s1) (trackObjects s1)\<rparr>
        in if animationProgress s2 < 1
           then s2\<lparr>frameRequests := frameRequests s2 + 1\<rparr>
           else s2\<lparr>isAnimating := False, dispatched := dispatched s2 @ [TrackAnimationComplete]\<rparr>)"

text \<open>
  \<open>startAnimation\<close>; \<open>startTime\<close> is the value \<open>performance.now()\<close> returns in
  \<open>startAnimation\<close> and \<open>currentTime\<close> the one it returns in the \<open>animateFrame\<close> called
  at the end.
\<close>

definition startAnimation :: "real \<Rightarrow> real \<Rightarrow> tracks_state \<Rightarrow> tracks_state" where
  "startAnimation startTime currentTime s =
     (if length (animatedTracks s) = 0 then s
      else
        let s1 = s\<lparr>isAnimating := True, animationStartTime := startTime, animationProgress := 0\<rparr>;
            s2 = s1\<lparr>trackObjects := setScales (\<lambda>track. 0) (animatedTracks s1) (trackObjects s1)\<rparr>
        in animateFrame currentTime s2)"

definition handleAnimationToggle :: "bool \<Rightarrow> real \<Rightarrow> real \<Rightarrow> tracks_state \<Rightarrow> tracks_state" where
  "handleAnimationToggle isPlaying startTime currentTime s =
     (if isPlaying \<and> \<not> isAnimating s then startAnimation startTime currentTime s else s)"

definition loadTracks :: "particle list \<Rightarrow> vec3 \<Rightarrow> (nat \<Rightarrow> real) \<Rightarrow> real \<Rightarrow> real \<Rightarrow> tracks_state \<Rightarrow> tracks_state" where
  "loadTracks particles vertex random startTime currentTime s =
     (let s1 = clearTracks s;
          s2 = (if length particles > maxTracks
                then s1\<lparr>useSimplifiedRendering := True\<rparr>
                else s1\<lparr>useSimplifiedRendering := False\<rparr>);
          s3 = createParticleTracks particles vertex 0 random s2
      in startAnimation startTime currentTime s3)"

subsection \<open>Hover and selection\<close>




definition setMaterial :: "nat \<Rightarrow> (material \<Rightarrow> material) \<Rightarrow> tracks_state \<Rightarrow> tracks_state" where
  "setMaterial i f s = s\<lparr>trackObjects := modify i (\<lambda>ob. ob\<lparr>material := f (material ob)\<rparr>) (trackObjects s)\<rparr>"





subsection \<open>Filters\<close>

text \<open>\<open>a <= b\<close> on numbers; every comparison with NaN is false.\<close>

fun num_le :: "jsnum \<Rightarrow> jsnum \<Rightarrow> bool" where
  "num_le (Fin a) (Fin b) = (a \<le> b)"
| "num_le NaN y = False"
| "num_le x NaN = False"
| "num_le NInf y = True"
| "num_le x PInf = True"
| "num_le PInf y = False"
| "num_le x NInf = False"

definition filterByType :: "string list \<Rightarrow> tracks_state \<Rightarrow> tracks_state" where
  "filterByType particleTypes s =
     s\<lparr>trackObjects :=
         map (\<lambda>trackObj.
                let isVisible = (length particleTypes = 0 \<or> p_type (ud_particle (userData trackObj)) \<in> set particleTypes)
                in trackObj\<lparr>visible := isVisible\<rparr>)
             (trackObjects s)\<rparr>"

definition filterByEnergy :: "jsnum \<Rightarrow> jsnum \<Rightarrow> tracks_state \<Rightarrow> tracks_state" where
  "filterByEnergy minEnergy maxEnergy s =
     s\<lparr>trackObjects :=
         map (\<lambda>trackObj.
                let isVisible = (num_le minEnergy (Fin (p_E (ud_particle (userData trackObj))))
                                 \<and> num_le (Fin (p_E (ud_particle (userData trackObj)))) maxEnergy)
                in trackObj\<lparr>visible := (visible trackObj \<and> isVisible)\<rparr>)
             (trackObjects s)\<rparr>"

definition filterByPt :: "jsnum \<Rightarrow> jsnum \<Rightarrow> tracks_state \<Rightarrow> tracks_state" where
  "filterByPt minPt maxPt s =
     s\<lparr>trackObjects :=
         map (\<lambda>trackObj.
                let isVisible = (num_le minPt (Fin (td_pt (ud_trackData (userData trackObj))))
                                 \<and> num_le (Fin (td_pt (ud_trackData (userData trackObj)))) maxPt)
                in trackObj\<lparr>visible := (visible trackObj \<and> isVisible)\<rparr>)
             (trackObjects s)\<rparr>"

section \<open>When validation is specified to fail\<close>

text \<open>
  The failure conditions in the words of the specification: a required field is absent
  (a value that is no object has no fields, and reads \<open>undefined\<close> for each); a vertex
  coordinate is not a number; \<open>particles\<close> is not a sequence; a particle lacks \<open>id\<close>, \<open>type\<close>,
  \<open>px\<close>, \<open>py\<close>, \<open>pz\<close> or \<open>E\<close>, or one of \<open>px\<close>, \<open>py\<close>, \<open>pz\<close>, \<open>E\<close> is not a number or is NaN;
  a point of a present trajectory is not an object or has a coordinate that is not a number.
  \<open>particle_fails\<close> and \<open>event_fails\<close> add the one condition the code has beyond these:
  a trajectory that is present (truthy) and not a sequence.
\<close>

definition point_schema_fails :: "jsval \<Rightarrow> bool" where
  "point_schema_fails point =
     (\<not> truthy point \<or> typeof point \<noteq> ''object''
      \<or> typeof (get_field point ''x'') \<noteq> ''number'' \<or> typeof (get_field point ''y'') \<noteq> ''number''
      \<or> typeof (get_field point ''z'') \<noteq> ''number'')"

definition spec_particle_fails :: "jsval \<Rightarrow> bool" where
  "spec_particle_fails particle =
     ((\<exists>field \<in> set [''id'', ''type'', ''px'', ''py'', ''pz'', ''E'']. \<not> has_field particle field)
      \<or> (\<exists>field \<in> set [''px'', ''py'', ''pz'', ''E''].
            typeof (get_field particle field) \<noteq> ''number'' \<or> isNaN (get_field particle field))
      \<or> (case get_field particle ''trajectory'' of
            JArr points \<Rightarrow> \<exists>point \<in> set points. point_schema_fails point
          | _ \<Rightarrow> False))"

definition particle_fails :: "jsval \<Rightarrow> bool" where
  "particle_fails particle =
     (spec_particle_fails particle
      \<or> (truthy (get_field particle ''trajectory'') \<and> \<not> isArray (get_field particle ''trajectory'')))"

definition event_fails_with :: "(jsval \<Rightarrow> bool) \<Rightarrow> jsval \<Rightarrow> bool" where
  "event_fails_with bad_particle eventData =
     ((\<exists>field \<in> set [''event_id'', ''particles'', ''vertex'']. \<not> has_field eventData field)
      \<or> typeof (get_field (get_field eventData ''vertex'') ''x'') \<noteq> ''number''
      \<or> typeof (get_field (get_field eventData ''vertex'') ''y'') \<noteq> ''number''
      \<or> typeof (get_field (get_field eventData ''vertex'') ''z'') \<noteq> ''number''
      \<or> \<not> isArray (get_field eventData ''particles'')
      \<or> (case get_field eventData ''particles'' of
            JArr particles \<Rightarrow> \<exists>particle \<in> set particles. bad_particle particle
          | _ \<Rightarrow> False))"

definition spec_event_fails :: "jsval \<Rightarrow> bool" where
  "spec_event_fails = event_fails_with spec_particle_fails"

definition event_fails :: "jsval \<Rightarrow> bool" where
  "event_fails = event_fails_with particle_fails"

section \<open>Sample inputs\<close>

text \<open>An electron with momentum \<open>(3, 4, 12)\<close> and no trajectory, in an event at the origin.\<close>

definition sample_particle :: jsval where
  "sample_particle = JObj [(''id'', JNum (Fin 1)), (''type'', JStr ''electron''),
     (''px'', JNum (Fin 3)), (''py'', JNum (Fin 4)), (''pz'', JNum (Fin 12)), (''E'', JNum (Fin 13)),
     (''charge'', JNum (Fin (- 1)))]"

text \<open>A muon with a recorded three-point trajectory.\<close>

definition sample_muon :: jsval where
  "sample_muon = JObj [(''id'', JNum (Fin 2)), (''type'', JStr ''muon''),
     (''px'', JNum (Fin 0)), (''py'', JNum (Fin 0)), (''pz'', JNum (Fin 5)), (''E'', JNum (Fin 5)),
     (''trajectory'', JArr [point_obj (Fin 0) (Fin 0) (Fin 0), point_obj (Fin 0) (Fin 0) (Fin 1),
                            point_obj (Fin 0) (Fin 0) (Fin 2)])]"

definition sample_event :: jsval where
  "sample_event = JObj [(''event_id'', JStr ''evt-001''),
     (''vertex'', point_obj (Fin 0) (Fin 0) (Fin 0)),
     (''particles'', JArr [sample_particle, sample_muon])]"




text \<open>
  Two particles without a trajectory whose momenta are the doubles \<open>2^-600\<close> and \<open>2^512\<close>
  (in JSON, \<open>2.409919865102884e-181\<close> and \<open>1.3407807929942597e+154\<close>) along the x axis.
\<close>

definition faint_particle :: jsval where
  "faint_particle = JObj [(''id'', JNum (Fin 5)), (''type'', JStr ''photon''),
     (''px'', JNum (Fin (1 / 2 ^ 600))), (''py'', JNum (Fin 0)), (''pz'', JNum (Fin 0)),
     (''E'', JNum (Fin (1 / 2 ^ 600)))]"

definition energetic_particle :: jsval where
  "energetic_particle = JObj [(''id'', JNum (Fin 6)), (''type'', JStr ''photon''),
     (''px'', JNum (Fin (2 ^ 512))), (''py'', JNum (Fin 0)), (''pz'', JNum (Fin 0)),
     (''E'', JNum (Fin (2 ^ 512)))]"

text \<open>An event whose only particle carries a string where its trajectory should be.\<close>

definition bad_trajectory_event :: jsval where
  "bad_trajectory_event = JObj [(''event_id'', JStr ''evt-003''),
     (''vertex'', point_obj (Fin 0) (Fin 0) (Fin 0)),
     (''particles'', JArr [JObj [(''id'', JNum (Fin 1)), (''type'', JStr ''electron''),
        (''px'', JNum (Fin 3)), (''py'', JNum (Fin 4)), (''pz'', JNum (Fin 12)), (''E'', JNum (Fin 13)),
        (''trajectory'', JStr ''none'')]])]"

text \<open>Two particles for the renderer, loaded with every random draw equal to \<open>0.8\<close>.\<close>

definition electron_track :: particle where
  "electron_track = \<lparr>p_id = 1, p_type = ''electron'', p_px = 3, p_py = 4, p_pz = 12, p_E = 13,
     p_trajectory = Some [(0, 0, 0), (3 / 13, 4 / 13, 12 / 13)]\<rparr>"

definition muon_track :: particle where
  "muon_track = \<lparr>p_id = 2, p_type = ''muon'', p_px = 0, p_py = 0, p_pz = 5, p_E = 5,
     p_trajectory = Some [(0, 0, 0), (0, 0, 1), (0, 0, 2)]\<rparr>"

definition two_track_state :: tracks_state where
  "two_track_state = loadTracks [electron_track, muon_track] (0, 0, 0) (\<lambda>index. 4 / 5) 0 0 constructor"

subsection \<open>What a load leaves in the object list\<close>

text \<open>
  How \<open>createParticleTrack\<close> builds an object in a given rendering mode: a tube over the
  whole trajectory with the energy-based opacity, a line over the simplified points with
  opacity \<open>0.8\<close> (only in simplified mode and for more than ten points), or an arrow with
  opacity \<open>0.9\<close>.
\<close>

definition built_as :: "bool \<Rightarrow> trackObject \<Rightarrow> bool" where
  "built_as simplified ob =
     (let trajectory = td_trajectory (ud_trackData (userData ob));
          energy = p_E (ud_particle (userData ob))
      in case geometry ob of
           TubeGeometry pts radius \<Rightarrow>
             \<not> isArrow (userData ob)
             \<and> pts = trajectory \<and> \<not> (simplified \<and> 10 < length trajectory)
             \<and> opacity (material ob) = Some (min (energy / 100) 1 * (7 / 10) + 3 / 10)
             \<and> originalOpacity (userData ob) = opacity (material ob)
         | LineGeometry pts \<Rightarrow>
             \<not> isArrow (userData ob)
             \<and> simplified \<and> 10 < length trajectory \<and> pts = simplifiedPoints trajectory
             \<and> opacity (material ob) = Some (8 / 10)
             \<and> originalOpacity (userData ob) = opacity (material ob)
         | ConeGeometry \<Rightarrow>
             isArrow (userData ob)
             \<and> opacity (material ob) = Some (9 / 10) \<and> originalOpacity (userData ob) = None)"

text \<open>The object drawn for the particle at an index: not an arrow, and tagged with both.\<close>

definition shows_particle :: "particle \<Rightarrow> nat \<Rightarrow> trackObject \<Rightarrow> bool" where
  "shows_particle p index ob =
     (\<not> isArrow (userData ob) \<and> ud_particle (userData ob) = p
      \<and> td_index (ud_trackData (userData ob)) = index
      \<and> Some (td_trajectory (ud_trackData (userData ob))) = p_trajectory p)"

subsection \<open>Sample inputs for the renderer\<close>

text \<open>A particle with an eleven-point trajectory, and a batch of 501 of them.\<close>

definition long_track :: particle where
  "long_track = \<lparr>p_id = 7, p_type = ''pion_plus'', p_px = 1, p_py = 0, p_pz = 0, p_E = 20,
     p_trajectory = Some [(0, 0, 0), (1, 0, 0), (2, 0, 0), (3, 0, 0), (4, 0, 0), (5, 0, 0),
                          (6, 0, 0), (7, 0, 0), (8, 0, 0), (9, 0, 0), (10, 0, 0)]\<rparr>"

definition crowded_state :: tracks_state where
  "crowded_state = loadTracks (replicate 501 long_track) (0, 0, 0) (\<lambda>index. 0) 0 0 constructor"

text \<open>A particle whose energy is negative, which validation accepts.\<close>

definition negative_energy_track :: particle where
  "negative_energy_track = \<lparr>p_id = 9, p_type = ''photon'', p_px = 1, p_py = 0, p_pz = 0, p_E = - 50,
     p_trajectory = Some [(0, 0, 0), (1, 0, 0)]\<rparr>"

definition negative_energy_state :: tracks_state where
  "negative_energy_state = loadTracks [negative_energy_track] (0, 0, 0) (\<lambda>index. 0) 0 0 constructor"






text \<open>End of the model; properties follow.\<close>

section \<open>Properties of the loader\<close>

subsection \<open>Array indices are never schema fields\<close>

lemma of_char_digit_char: "d < 10 \<Longrightarrow> (of_char (digit_char d) :: nat) = 48 + d"
  by (simp add: digit_char_def)

lemma last_show_nat: "last (show_nat n) = digit_char (n mod 10)"
  by (subst show_nat.simps) simp

lemma show_nat_last_neq:
  assumes "(of_char c :: nat) \<notin> {48..<58}"
  shows "show_nat n \<noteq> s @ [c]"
proof
  assume "show_nat n = s @ [c]"
  then have "last (show_nat n) = c" by simp
  then have "digit_char (n mod 10) = c" by (simp add: last_show_nat)
  then have "(of_char c :: nat) = 48 + n mod 10"
    using of_char_digit_char [of "n mod 10"] by simp
  with assms show False by simp
qed

lemma show_nat_neq_id: "show_nat n \<noteq> ''id''" "''id'' \<noteq> show_nat n"
  using show_nat_last_neq [of "CHR ''d''" n "''i''"] by auto

lemma show_nat_neq_event_id: "show_nat n \<noteq> ''event_id''" "''event_id'' \<noteq> show_nat n"
  using show_nat_last_neq [of "CHR ''d''" n "''event_i''"] by auto

lemma array_lacks_id: "\<not> has_field (JArr xs) ''id''"
  by (auto simp: show_nat_neq_id)

lemma array_lacks_event_id: "\<not> has_field (JArr xs) ''event_id''"
  by (auto simp: show_nat_neq_event_id)

subsection \<open>Shape of a validated particle\<close>

lemma validateParticle_is_object:
  assumes "validateParticle fp particle index = Inr v"
  shows "\<exists>kvs. particle = JObj kvs"
proof (cases particle)
  case (JArr xs)
  have "find (\<lambda>field. \<not> has_field (JArr xs) field) particle_required = Some ''id''"
    using array_lacks_id [of xs] by (simp add: particle_required_def)
  with assms JArr show ?thesis by (simp add: validateParticle_def)
qed (use assms in \<open>simp_all add: validateParticle_def\<close>)

lemma validateParticle_result:
  assumes "validateParticle fp (JObj kvs) index = Inr v"
  shows "\<exists>t. v = JObj (AList.update ''derived'' (derived_of fp (JObj kvs)) (AList.update ''trajectory'' t kvs))"
  using assms
  by (auto simp: validateParticle_def Let_def split: if_splits option.splits sum.splits jsval.splits)

lemma validateParticle_frame:
  assumes "validateParticle fp particle index = Inr v" and "k \<noteq> ''trajectory''" and "k \<noteq> ''derived''"
  shows "get_field v k = get_field particle k \<and> has_field v k = has_field particle k"
proof -
  obtain kvs where p: "particle = JObj kvs" using validateParticle_is_object [OF assms(1)] by blast
  obtain t where v: "v = JObj (AList.update ''derived'' (derived_of fp (JObj kvs)) (AList.update ''trajectory'' t kvs))"
    using validateParticle_result assms(1) p by blast
  show ?thesis using assms(2,3) by (simp add: p v update_conv')
qed

lemma validateParticles_length:
  "validateParticles fp ps index = Inr vs \<Longrightarrow> length vs = length ps"
  by (induction ps arbitrary: index vs) (auto split: sum.splits)

lemma validateParticles_nth:
  "validateParticles fp ps index = Inr vs \<Longrightarrow> i < length ps \<Longrightarrow> validateParticle fp (ps ! i) (index + i) = Inr (vs ! i)"
proof (induction ps arbitrary: index vs i)
  case Nil
  then show ?case by simp
next
  case (Cons p ps)
  from Cons.prems(1) obtain w ws where w: "validateParticle fp p index = Inr w"
    and ws: "validateParticles fp ps (Suc index) = Inr ws" and vs: "vs = w # ws"
    by (auto split: sum.splits)
  show ?case
  proof (cases i)
    case 0
    then show ?thesis by (simp add: w vs)
  next
    case (Suc j)
    with Cons.prems(2) have "j < length ps" by simp
    from Cons.IH [OF ws this] show ?thesis by (simp add: Suc vs)
  qed
qed

lemma validateEvent_result:
  assumes "validateEvent fp now eventData = Inr out"
  shows "\<exists>ps vs. get_field eventData ''particles'' = JArr ps \<and> validateParticles fp ps 0 = Inr vs
           \<and> out = JObj (AList.update ''metadata''
                        (JObj (AList.update ''validated_at'' (JStr now)
                                (AList.update ''particle_count'' (JNum (Fin (real (length vs))))
                                  (spread (get_field eventData ''metadata'')))))
                        (AList.update ''particles'' (JArr vs) (spread eventData)))"
  using assms
  by (auto simp: validateEvent_def Let_def split: if_splits option.splits sum.splits jsval.splits)

lemma sample_particle_valid: "\<exists>v. validateParticle fp sample_particle 0 = Inr v"
  by (simp add: validateParticle_def sample_particle_def particle_required_def numericFields_def Let_def)

lemma sample_muon_valid: "\<exists>v. validateParticle fp sample_muon 1 = Inr v"
  by (simp add: validateParticle_def sample_muon_def particle_required_def numericFields_def
      validatePoint_def point_obj_def Let_def)

lemma sample_event_valid: "\<exists>out. validateEvent fp now sample_event = Inr out"
proof -
  obtain v where "validateParticle fp sample_particle 0 = Inr v"
    using sample_particle_valid by blast
  moreover obtain w where "validateParticle fp sample_muon 1 = Inr w"
    using sample_muon_valid by blast
  ultimately show ?thesis
    by (simp add: validateEvent_def sample_event_def event_required_def point_obj_def)
qed

subsection \<open>The particle sequence is preserved\<close>

text \<open>
  C10. A successful validation returns a particle array of the same length and order as
  the input, and the validated particle at each position agrees with the input particle
  at that position on every property other than \<open>trajectory\<close> and \<open>derived\<close> (so on
  \<open>id\<close>, \<open>type\<close>, \<open>px\<close>, \<open>py\<close>, \<open>pz\<close>, \<open>E\<close> and \<open>charge\<close>): same presence, same value.
\<close>

theorem validateEvent_preserves_particles:
  assumes "validateEvent fp now eventData = Inr out"
  shows "\<exists>ps vs. get_field eventData ''particles'' = JArr ps \<and> get_field out ''particles'' = JArr vs
           \<and> length vs = length ps
           \<and> (\<forall>i<length ps. \<forall>k. k \<noteq> ''trajectory'' \<longrightarrow> k \<noteq> ''derived'' \<longrightarrow>
                 get_field (vs ! i) k = get_field (ps ! i) k \<and> has_field (vs ! i) k = has_field (ps ! i) k)"
proof -
  from validateEvent_result [OF assms] obtain ps vs
    where ps: "get_field eventData ''particles'' = JArr ps"
    and vs: "validateParticles fp ps 0 = Inr vs"
    and out: "out = JObj (AList.update ''metadata''
                        (JObj (AList.update ''validated_at'' (JStr now)
                                (AList.update ''particle_count'' (JNum (Fin (real (length vs))))
                                  (spread (get_field eventData ''metadata'')))))
                        (AList.update ''particles'' (JArr vs) (spread eventData)))"
    by blast
  have "get_field out ''particles'' = JArr vs"
    by (simp add: out update_conv')
  moreover have "length vs = length ps"
    using vs by (rule validateParticles_length)
  moreover have "get_field (vs ! i) k = get_field (ps ! i) k \<and> has_field (vs ! i) k = has_field (ps ! i) k"
    if "i < length ps" "k \<noteq> ''trajectory''" "k \<noteq> ''derived''" for i k
    using validateParticle_frame [OF _ that(2,3)] validateParticles_nth [OF vs that(1)] by simp
  ultimately show ?thesis using ps by blast
qed

theorem validateEvent_preserves_particles_witness:
  "\<exists>out. validateEvent exact_engine ''2024-01-01T00:00:00.000Z'' sample_event = Inr out
     \<and> (\<exists>vs. get_field out ''particles'' = JArr vs \<and> length vs = 2
          \<and> get_field (vs ! 0) ''id'' = JNum (Fin 1) \<and> get_field (vs ! 0) ''type'' = JStr ''electron''
          \<and> get_field (vs ! 0) ''px'' = JNum (Fin 3) \<and> get_field (vs ! 0) ''E'' = JNum (Fin 13)
          \<and> get_field (vs ! 0) ''charge'' = JNum (Fin (- 1)))"
proof -
  obtain out where h: "validateEvent exact_engine ''2024-01-01T00:00:00.000Z'' sample_event = Inr out"
    using sample_event_valid by blast
  have ps: "get_field sample_event ''particles'' = JArr [sample_particle, sample_muon]"
    by (simp add: sample_event_def)
  from validateEvent_preserves_particles [OF h] ps obtain vs
    where vs: "get_field out ''particles'' = JArr vs" "length vs = 2"
      and fr: "\<forall>i<2. \<forall>k. k \<noteq> ''trajectory'' \<longrightarrow> k \<noteq> ''derived'' \<longrightarrow>
                 get_field (vs ! i) k = get_field ([sample_particle, sample_muon] ! i) k
                 \<and> has_field (vs ! i) k = has_field ([sample_particle, sample_muon] ! i) k"
    by auto
  from fr have "\<And>k. k \<noteq> ''trajectory'' \<Longrightarrow> k \<noteq> ''derived'' \<Longrightarrow> get_field (vs ! 0) k = get_field sample_particle k"
    by simp
  then have "get_field (vs ! 0) ''id'' = JNum (Fin 1) \<and> get_field (vs ! 0) ''type'' = JStr ''electron''
          \<and> get_field (vs ! 0) ''px'' = JNum (Fin 3) \<and> get_field (vs ! 0) ''E'' = JNum (Fin 13)
          \<and> get_field (vs ! 0) ''charge'' = JNum (Fin (- 1))"
    by (simp add: sample_particle_def)
  with h vs show ?thesis by blast
qed

subsection \<open>Validation is idempotent\<close>

lemma validatePoint_idem:
  assumes "validatePoint index point pointIndex = Inr q"
  shows "validatePoint index' q pointIndex' = Inr q"
proof -
  from assms have q: "q = JObj [(''x'', get_field point ''x''), (''y'', get_field point ''y''), (''z'', get_field point ''z'')]"
    and t: "typeof (get_field point ''x'') = ''number''" "typeof (get_field point ''y'') = ''number''"
           "typeof (get_field point ''z'') = ''number''"
    by (auto simp: validatePoint_def split: if_splits)
  show ?thesis using t by (simp add: q validatePoint_def)
qed

lemma validatePoints_idem:
  "validatePoints index points pointIndex = Inr qs \<Longrightarrow> validatePoints index' qs pointIndex' = Inr qs"
proof (induction points arbitrary: pointIndex qs pointIndex')
  case Nil
  then show ?case by simp
next
  case (Cons p ps)
  from Cons.prems obtain r rs where r: "validatePoint index p pointIndex = Inr r"
    and rs: "validatePoints index ps (Suc pointIndex) = Inr rs" and qs: "qs = r # rs"
    by (auto split: sum.splits)
  show ?case
    using validatePoint_idem [OF r, of index' pointIndex'] Cons.IH [OF rs, of "Suc pointIndex'"]
    by (simp add: qs)
qed

lemma validatePoint_point_obj: "validatePoint index (point_obj a b c) pointIndex = Inr (point_obj a b c)"
  by (simp add: validatePoint_def point_obj_def)

lemma validatePoints_point_objs:
  "validatePoints index (map (\<lambda>i. point_obj (f i) (g i) (h i)) is) pointIndex
     = Inr (map (\<lambda>i. point_obj (f i) (g i) (h i)) is)"
  by (induction "is" arbitrary: pointIndex) (simp_all add: validatePoint_point_obj)

lemma generateSimpleTrajectory_revalidates:
  "\<exists>qs. generateSimpleTrajectory fp particle = JArr qs \<and> validatePoints index qs 0 = Inr qs"
proof (cases "Math_sqrt fp (num_add fp (num_add fp (num_mul fp (num_of (get_field particle ''px'')) (num_of (get_field particle ''px'')))
         (num_mul fp (num_of (get_field particle ''py'')) (num_of (get_field particle ''py''))))
         (num_mul fp (num_of (get_field particle ''pz'')) (num_of (get_field particle ''pz'')))) = Fin 0")
  case True
  then show ?thesis
    by (simp add: generateSimpleTrajectory_def Let_def validatePoint_point_obj)
next
  case False
  then show ?thesis
    unfolding generateSimpleTrajectory_def Let_def
    by (simp only: if_False validatePoints_point_objs jsval.inject simp_thms ex_simps)
qed


lemma validateParticle_success:
  assumes "validateParticle fp particle index = Inr v"
  shows "truthy particle \<and> typeof particle = ''object''"
    and "find (\<lambda>field. \<not> has_field particle field) particle_required = None"
    and "find (\<lambda>field. typeof (get_field particle field) \<noteq> ''number'' \<or> isNaN (get_field particle field)) numericFields = None"
    and "\<exists>qs. (if truthy (get_field particle ''trajectory'')
               then \<exists>points. get_field particle ''trajectory'' = JArr points \<and> validatePoints index points 0 = Inr qs
               else generateSimpleTrajectory fp particle = JArr qs)
            \<and> validatePoints index' qs 0 = Inr qs
            \<and> v = JObj (AList.update ''derived'' (derived_of fp particle) (AList.update ''trajectory'' (JArr qs) (spread particle)))"
proof -
  show o: "truthy particle \<and> typeof particle = ''object''"
  proof (rule ccontr)
    assume "\<not> ?thesis"
    then have "validateParticle fp particle index = Inl (ParticleNotObject index)"
      unfolding validateParticle_def by (simp only: de_Morgan_conj if_True)
    with assms show False by simp
  qed
  then have o': "(\<not> truthy particle \<or> typeof particle \<noteq> ''object'') = False" by simp
  show r: "find (\<lambda>field. \<not> has_field particle field) particle_required = None"
  proof (rule ccontr)
    assume "\<not> ?thesis"
    then obtain f where "find (\<lambda>field. \<not> has_field particle field) particle_required = Some f" by auto
    then have "validateParticle fp particle index = Inl (ParticleMissingField index f)"
      unfolding validateParticle_def by (simp only: o' if_False option.case)
    with assms show False by simp
  qed
  show n: "find (\<lambda>field. typeof (get_field particle field) \<noteq> ''number'' \<or> isNaN (get_field particle field)) numericFields = None"
  proof (rule ccontr)
    assume "\<not> ?thesis"
    then obtain f where "find (\<lambda>field. typeof (get_field particle field) \<noteq> ''number'' \<or> isNaN (get_field particle field)) numericFields = Some f" by auto
    then have "validateParticle fp particle index = Inl (ParticleFieldNotNumber index f)"
      unfolding validateParticle_def by (simp only: o' r if_False option.case)
    with assms show False by simp
  qed
  have body: "(case (if truthy (get_field particle ''trajectory'')
                   then (case get_field particle ''trajectory'' of
                           JArr points \<Rightarrow> (case validatePoints index points 0 of
                                             Inl e \<Rightarrow> Inl e
                                           | Inr qs \<Rightarrow> Inr (JArr qs))
                         | _ \<Rightarrow> Inl (TrajectoryNotArray index))
                   else Inr (generateSimpleTrajectory fp particle)) of
                 Inl e \<Rightarrow> Inl e
               | Inr trajectory' \<Rightarrow>
                   Inr (JObj (AList.update ''derived'' (derived_of fp particle)
                               (AList.update ''trajectory'' trajectory' (spread particle))))) = Inr v"
    using assms unfolding validateParticle_def by (simp only: o' r n if_False option.case Let_def)
  show "\<exists>qs. (if truthy (get_field particle ''trajectory'')
               then \<exists>points. get_field particle ''trajectory'' = JArr points \<and> validatePoints index points 0 = Inr qs
               else generateSimpleTrajectory fp particle = JArr qs)
            \<and> validatePoints index' qs 0 = Inr qs
            \<and> v = JObj (AList.update ''derived'' (derived_of fp particle) (AList.update ''trajectory'' (JArr qs) (spread particle)))"
  proof (cases "truthy (get_field particle ''trajectory'')")
    case True
    with body obtain points qs where "get_field particle ''trajectory'' = JArr points"
      and "validatePoints index points 0 = Inr qs"
      and "v = JObj (AList.update ''derived'' (derived_of fp particle) (AList.update ''trajectory'' (JArr qs) (spread particle)))"
      by (auto split: jsval.splits sum.splits)
    with True validatePoints_idem [of index points 0 qs index' 0] show ?thesis by auto
  next
    case False
    obtain qs where "generateSimpleTrajectory fp particle = JArr qs" "validatePoints index' qs 0 = Inr qs"
      using generateSimpleTrajectory_revalidates by blast
    with False body show ?thesis by auto
  qed
qed

lemma derived_of_cong:
  assumes "get_field p ''px'' = get_field q ''px''" "get_field p ''py'' = get_field q ''py''"
    "get_field p ''pz'' = get_field q ''pz''"
  shows "derived_of fp p = derived_of fp q"
  by (simp add: derived_of_def assms)

lemma find_None_cong:
  "find P xs = None \<Longrightarrow> (\<And>x. x \<in> set xs \<Longrightarrow> Q x = P x) \<Longrightarrow> find Q xs = None"
  by (simp add: find_None_iff)

lemma required_not_added:
  "k \<in> set particle_required \<Longrightarrow> k \<noteq> ''trajectory'' \<and> k \<noteq> ''derived''"
  "k \<in> set numericFields \<Longrightarrow> k \<noteq> ''trajectory'' \<and> k \<noteq> ''derived''"
  by (auto simp: particle_required_def numericFields_def)

lemma validateParticle_idem:
  assumes "validateParticle fp particle index = Inr v"
  shows "validateParticle fp v index' = Inr v"
proof -
  note ok = validateParticle_success(1-3) [OF assms]
  from validateParticle_success(4) [OF assms, of index'] obtain qs
    where qs: "validatePoints index' qs 0 = Inr qs"
    and v: "v = JObj (AList.update ''derived'' (derived_of fp particle) (AList.update ''trajectory'' (JArr qs) (spread particle)))"
    by auto
  define vl where "vl = AList.update ''derived'' (derived_of fp particle) (AList.update ''trajectory'' (JArr qs) (spread particle))"
  have vvl: "v = JObj vl" by (simp add: v vl_def)
  note frame = validateParticle_frame [OF assms]
  have o: "(\<not> truthy v \<or> typeof v \<noteq> ''object'') = False"
    by (simp add: vvl)
  have r: "find (\<lambda>field. \<not> has_field v field) particle_required = None"
    using ok(2) by (rule find_None_cong) (simp add: frame required_not_added)
  have n: "find (\<lambda>field. typeof (get_field v field) \<noteq> ''number'' \<or> isNaN (get_field v field)) numericFields = None"
    using ok(3) by (rule find_None_cong) (simp add: frame required_not_added)
  have t: "get_field v ''trajectory'' = JArr qs"
    by (simp add: vvl vl_def update_conv')
  have d: "derived_of fp v = derived_of fp particle"
    by (rule derived_of_cong) (simp_all add: frame)
  have m1: "map_of vl ''trajectory'' = Some (JArr qs)"
    by (simp add: vl_def update_conv')
  have m2: "map_of vl ''derived'' = Some (derived_of fp particle)"
    by (simp add: vl_def update_conv')
  have s: "spread v = vl" by (simp add: vvl)
  have "validateParticle fp v index' = Inr (JObj (AList.update ''derived'' (derived_of fp particle)
          (AList.update ''trajectory'' (JArr qs) vl)))"
    unfolding validateParticle_def
    by (simp only: o r n t qs d s if_False option.case Let_def truthy.simps if_True jsval.case sum.case)
  also have "AList.update ''trajectory'' (JArr qs) vl = vl"
    using m1 by (rule update_triv)
  also have "AList.update ''derived'' (derived_of fp particle) vl = vl"
    using m2 by (rule update_triv)
  finally show ?thesis by (simp add: vvl)
qed

lemma validateParticles_idem:
  "validateParticles fp ps index = Inr vs \<Longrightarrow> validateParticles fp vs index' = Inr vs"
proof (induction ps arbitrary: index vs index')
  case Nil
  then show ?case by simp
next
  case (Cons p ps)
  from Cons.prems obtain w ws where w: "validateParticle fp p index = Inr w"
    and ws: "validateParticles fp ps (Suc index) = Inr ws" and vs: "vs = w # ws"
    by (auto split: sum.splits)
  show ?case
    using validateParticle_idem [OF w, of index'] Cons.IH [OF ws, of "Suc index'"]
    by (simp add: vs)
qed


lemma validateEvent_success:
  assumes "validateEvent fp now eventData = Inr out"
  shows "truthy eventData \<and> typeof eventData = ''object''"
    and "find (\<lambda>field. \<not> has_field eventData field) event_required = None"
    and "truthy (get_field eventData ''vertex'') \<and> typeof (get_field eventData ''vertex'') = ''object''"
    and "typeof (get_field (get_field eventData ''vertex'') ''x'') = ''number''
         \<and> typeof (get_field (get_field eventData ''vertex'') ''y'') = ''number''
         \<and> typeof (get_field (get_field eventData ''vertex'') ''z'') = ''number''"
proof -
  show o: "truthy eventData \<and> typeof eventData = ''object''"
  proof (rule ccontr)
    assume "\<not> ?thesis"
    then have "validateEvent fp now eventData = Inl EventNotObject"
      unfolding validateEvent_def by (simp only: de_Morgan_conj if_True)
    with assms show False by simp
  qed
  then have o': "(\<not> truthy eventData \<or> typeof eventData \<noteq> ''object'') = False" by simp
  show r: "find (\<lambda>field. \<not> has_field eventData field) event_required = None"
  proof (rule ccontr)
    assume "\<not> ?thesis"
    then obtain f where "find (\<lambda>field. \<not> has_field eventData field) event_required = Some f" by auto
    then have "validateEvent fp now eventData = Inl (MissingField f)"
      unfolding validateEvent_def by (simp only: o' if_False option.case)
    with assms show False by simp
  qed
  show v: "truthy (get_field eventData ''vertex'') \<and> typeof (get_field eventData ''vertex'') = ''object''"
  proof (rule ccontr)
    assume "\<not> ?thesis"
    then have "validateEvent fp now eventData = Inl VertexNotObject"
      unfolding validateEvent_def by (simp only: o' r if_False option.case Let_def de_Morgan_conj if_True)
    with assms show False by simp
  qed
  then have v': "(\<not> truthy (get_field eventData ''vertex'') \<or> typeof (get_field eventData ''vertex'') \<noteq> ''object'') = False"
    by simp
  show "typeof (get_field (get_field eventData ''vertex'') ''x'') = ''number''
         \<and> typeof (get_field (get_field eventData ''vertex'') ''y'') = ''number''
         \<and> typeof (get_field (get_field eventData ''vertex'') ''z'') = ''number''"
  proof (rule ccontr)
    assume "\<not> ?thesis"
    then have "validateEvent fp now eventData = Inl VertexNotNumbers"
      unfolding validateEvent_def by (simp only: o' r v' if_False option.case Let_def de_Morgan_conj if_True)
    with assms show False by simp
  qed
qed

lemma validateEvent_intro:
  assumes "truthy eventData \<and> typeof eventData = ''object''"
    and "find (\<lambda>field. \<not> has_field eventData field) event_required = None"
    and "truthy (get_field eventData ''vertex'') \<and> typeof (get_field eventData ''vertex'') = ''object''"
    and "typeof (get_field (get_field eventData ''vertex'') ''x'') = ''number''
         \<and> typeof (get_field (get_field eventData ''vertex'') ''y'') = ''number''
         \<and> typeof (get_field (get_field eventData ''vertex'') ''z'') = ''number''"
    and "get_field eventData ''particles'' = JArr ps"
    and "validateParticles fp ps 0 = Inr vs"
  shows "validateEvent fp now eventData = Inr (JObj (AList.update ''metadata''
                        (JObj (AList.update ''validated_at'' (JStr now)
                                (AList.update ''particle_count'' (JNum (Fin (real (length vs))))
                                  (spread (get_field eventData ''metadata'')))))
                        (AList.update ''particles'' (JArr vs) (spread eventData))))"
  unfolding validateEvent_def using assms(1,3,4)
  by (simp only: assms(2,5,6) if_False option.case Let_def jsval.case sum.case simp_thms if_True)

lemma validateEvent_is_object:
  assumes "validateEvent fp now eventData = Inr out"
  shows "\<exists>kvs. eventData = JObj kvs"
proof (cases eventData)
  case (JArr xs)
  have "find (\<lambda>field. \<not> has_field (JArr xs) field) event_required = Some ''event_id''"
    using array_lacks_event_id [of xs] by (simp add: event_required_def)
  with validateEvent_success(2) [OF assms] JArr show ?thesis by simp
qed (use validateEvent_success(1) [OF assms] in simp_all)

text \<open>
  C7. Validation is a function of its argument: the model reads the input value and builds
  a new one, as the code does (it assigns to no property of its input). Validating the
  output of a successful validation succeeds again and returns the same particle array,
  so every particle keeps its trajectory and its derived \<open>pt\<close>, \<open>momentum\<close>, \<open>eta\<close> and \<open>phi\<close>;
  with the same timestamp the whole output is a fixed point.
\<close>

theorem validateEvent_idempotent:
  assumes "validateEvent fp now eventData = Inr out"
  shows "(\<exists>out'. validateEvent fp now' out = Inr out'
            \<and> get_field out' ''particles'' = get_field out ''particles'')
         \<and> validateEvent fp now out = Inr out"
proof -
  obtain kvs where e: "eventData = JObj kvs" using validateEvent_is_object [OF assms] by blast
  from validateEvent_result [OF assms] obtain ps vs
    where ps: "get_field eventData ''particles'' = JArr ps"
    and vs: "validateParticles fp ps 0 = Inr vs"
    and out: "out = JObj (AList.update ''metadata''
                        (JObj (AList.update ''validated_at'' (JStr now)
                                (AList.update ''particle_count'' (JNum (Fin (real (length vs))))
                                  (spread (get_field eventData ''metadata'')))))
                        (AList.update ''particles'' (JArr vs) (spread eventData)))"
    by blast
  note ok = validateEvent_success [OF assms]
  define ml where "ml = AList.update ''validated_at'' (JStr now)
                                (AList.update ''particle_count'' (JNum (Fin (real (length vs))))
                                  (spread (get_field eventData ''metadata'')))"
  define ol where "ol = AList.update ''metadata'' (JObj ml) (AList.update ''particles'' (JArr vs) kvs)"
  have ool: "out = JObj ol" by (simp add: out ol_def ml_def e)
  have frame: "get_field out k = get_field eventData k \<and> has_field out k = has_field eventData k"
    if "k \<noteq> ''metadata''" "k \<noteq> ''particles''" for k
    using that by (simp add: ool ol_def e update_conv')
  have hp: "has_field out ''particles''" by (simp add: ool ol_def update_conv')
  have gp: "get_field out ''particles'' = JArr vs" by (simp add: ool ol_def update_conv')
  have gm: "get_field out ''metadata'' = JObj ml" by (simp add: ool ol_def update_conv')
  have o: "truthy out \<and> typeof out = ''object''" by (simp add: ool)
  have req: "has_field eventData f" if "f \<in> set event_required" for f
    using ok(2) that unfolding find_None_iff by blast
  have "has_field out f" if "f \<in> set event_required" for f
  proof -
    from that consider "f = ''event_id''" | "f = ''particles''" | "f = ''vertex''"
      by (auto simp: event_required_def)
    then show ?thesis
    proof cases
      case 1
      then show ?thesis using frame [of f] req [OF that] by simp
    next
      case 2
      then show ?thesis using hp by simp
    next
      case 3
      then show ?thesis using frame [of f] req [OF that] by simp
    qed
  qed
  then have r: "find (\<lambda>field. \<not> has_field out field) event_required = None"
    unfolding find_None_iff by blast
  have gv: "get_field out ''vertex'' = get_field eventData ''vertex''"
    by (simp add: frame)
  have vs': "validateParticles fp vs 0 = Inr vs"
    using vs by (rule validateParticles_idem)
  have res: "validateEvent fp t out = Inr (JObj (AList.update ''metadata''
                        (JObj (AList.update ''validated_at'' (JStr t)
                                (AList.update ''particle_count'' (JNum (Fin (real (length vs))))
                                  (spread (get_field out ''metadata'')))))
                        (AList.update ''particles'' (JArr vs) (spread out))))" for t
    using o r ok(3,4) gp vs' by (intro validateEvent_intro) (simp_all only: gv)
  have first: "\<exists>out'. validateEvent fp now' out = Inr out' \<and> get_field out' ''particles'' = get_field out ''particles''"
    by (simp add: res gp update_conv')
  have m1: "map_of ml ''particle_count'' = Some (JNum (Fin (real (length vs))))"
    by (simp add: ml_def update_conv')
  have m2: "map_of ml ''validated_at'' = Some (JStr now)"
    by (simp add: ml_def update_conv')
  have m3: "map_of ol ''particles'' = Some (JArr vs)"
    by (simp add: ol_def update_conv')
  have m4: "map_of ol ''metadata'' = Some (JObj ml)"
    by (simp add: ol_def update_conv')
  have "validateEvent fp now out = Inr (JObj (AList.update ''metadata''
                        (JObj (AList.update ''validated_at'' (JStr now)
                                (AList.update ''particle_count'' (JNum (Fin (real (length vs)))) ml)))
                        (AList.update ''particles'' (JArr vs) ol)))"
    by (simp add: res gm) (simp add: ool)
  also have "AList.update ''particle_count'' (JNum (Fin (real (length vs)))) ml = ml"
    using m1 by (rule update_triv)
  also have "AList.update ''validated_at'' (JStr now) ml = ml"
    using m2 by (rule update_triv)
  also have "AList.update ''particles'' (JArr vs) ol = ol"
    using m3 by (rule update_triv)
  also have "AList.update ''metadata'' (JObj ml) ol = ol"
    using m4 by (rule update_triv)
  finally have "validateEvent fp now out = Inr out" by (simp add: ool)
  with first show ?thesis by blast
qed

theorem validateEvent_idempotent_witness:
  "\<exists>out. validateEvent exact_engine ''2024-01-01T00:00:00.000Z'' sample_event = Inr out
     \<and> validateEvent exact_engine ''2024-01-01T00:00:00.000Z'' out = Inr out
     \<and> (\<exists>out'. validateEvent exact_engine ''2024-06-30T12:00:00.000Z'' out = Inr out'
           \<and> get_field out' ''particles'' = get_field out ''particles'')"
proof -
  obtain out where h: "validateEvent exact_engine ''2024-01-01T00:00:00.000Z'' sample_event = Inr out"
    using sample_event_valid by blast
  from validateEvent_idempotent [OF h, of "''2024-06-30T12:00:00.000Z''"] h show ?thesis
    by blast
qed

subsection \<open>Double arithmetic\<close>

lemma thresholds: "0 < underflow_threshold" "underflow_threshold < 1 / 1000" "1000 < overflow_threshold"
proof -
  show "0 < underflow_threshold" by (simp add: underflow_threshold_def)
  have "(2::real) ^ 10 \<le> 2 ^ 1075" by (rule power_increasing) simp_all
  then have "(1000::real) < 2 ^ 1075" by simp
  then show "underflow_threshold < 1 / 1000"
    unfolding underflow_threshold_def by (simp add: field_simps)
  have "(2::real) ^ 10 \<le> 2 ^ 1024" by (rule power_increasing) simp_all
  then show "1000 < overflow_threshold" unfolding overflow_threshold_def by simp
qed

lemma to_double_zero [simp]: "to_double fp 0 = Fin 0"
  using thresholds by (simp add: to_double_def)


lemma to_double_underflow:
  assumes "\<bar>x\<bar> \<le> 1 / 2 ^ 538"
  shows "to_double fp (x * x) = Fin 0"
proof -
  have "\<bar>x * x\<bar> = \<bar>x\<bar> * \<bar>x\<bar>" by (simp add: abs_mult)
  also have "\<dots> \<le> (1 / 2 ^ 538) * (1 / 2 ^ 538)"
    using assms by (intro mult_mono) simp_all
  also have "\<dots> = 1 / 2 ^ 1076" by (simp add: power_add [symmetric] del: power_add)
  also have "\<dots> \<le> underflow_threshold"
  proof -
    have "(2::real) ^ 1075 \<le> 2 ^ 1076" by (rule power_increasing) simp_all
    then show ?thesis unfolding underflow_threshold_def by (simp add: frac_le)
  qed
  finally have u: "\<bar>x * x\<bar> \<le> underflow_threshold" .
  with thresholds have "\<not> overflow_threshold \<le> \<bar>x * x\<bar>" by linarith
  with u show ?thesis by (simp only: to_double_def if_False if_True)
qed

lemma to_double_overflow:
  assumes "2 ^ 512 \<le> \<bar>x\<bar>"
  shows "to_double fp (x * x) = PInf"
proof -
  have "(2::real) ^ 512 * 2 ^ 512 \<le> \<bar>x\<bar> * \<bar>x\<bar>"
    using assms by (intro mult_mono) simp_all
  then have "overflow_threshold \<le> \<bar>x * x\<bar>"
    unfolding overflow_threshold_def by (simp add: abs_mult power_add [symmetric] del: power_add)
  moreover have "x \<noteq> 0" using assms by auto
  then have "0 < x * x" by (simp add: zero_less_mult_iff not_less) (auto simp: less_le)
  ultimately show ?thesis by (simp only: to_double_def if_True)
qed

lemma zero_times [simp]: "num_mul fp (Fin 0) (Fin a) = Fin 0" "num_mul fp (Fin a) (Fin 0) = Fin 0"
  by simp_all

lemma first_distance: "num_mul fp (num_div fp (Fin 0) (Fin 5)) (Fin 5) = Fin 0"
  by simp

lemma exact_engine_simps [simp]:
  "round_nearest exact_engine = Fin" "engine_atan2 exact_engine = exact_atan2"
  "engine_tan exact_engine = exact_tan" "engine_log exact_engine = exact_log"
  by (simp_all add: exact_engine_def)



subsection \<open>Derived kinematics\<close>






text \<open>
  Whatever the engine, the square of \<open>2^512\<close> overflows and the square of \<open>2^-600\<close>
  underflows, and so do the magnitudes computed from them.
\<close>

lemma squares_overflow_and_underflow:
  "get_field (derived_of fp energetic_particle) ''pt'' = JNum PInf"
  "get_field (derived_of fp energetic_particle) ''momentum'' = JNum PInf"
  "get_field (derived_of fp faint_particle) ''pt'' = JNum (Fin 0)"
  "get_field (derived_of fp faint_particle) ''momentum'' = JNum (Fin 0)"
  "generateSimpleTrajectory fp faint_particle = JArr [point_obj (Fin 0) (Fin 0) (Fin 0)]"
proof -
  define h :: real where "h = 2 ^ 512"
  have ho: "to_double fp (h * h) = PInf"
    by (rule to_double_overflow) (simp add: h_def)
  have f: "get_field energetic_particle ''px'' = JNum (Fin h)" "get_field energetic_particle ''py'' = JNum (Fin 0)"
    "get_field energetic_particle ''pz'' = JNum (Fin 0)"
    by (simp_all add: energetic_particle_def h_def)
  show "get_field (derived_of fp energetic_particle) ''pt'' = JNum PInf"
    "get_field (derived_of fp energetic_particle) ''momentum'' = JNum PInf"
    by (simp_all add: derived_of_def f ho Let_def)
  define e :: real where "e = 1 / 2 ^ 600"
  have "(2::real) ^ 538 \<le> 2 ^ 600" by (rule power_increasing) simp_all
  then have "\<bar>e\<bar> \<le> 1 / 2 ^ 538" by (simp add: e_def frac_le)
  then have eu: "to_double fp (e * e) = Fin 0"
    by (rule to_double_underflow)
  have g: "get_field faint_particle ''px'' = JNum (Fin e)" "get_field faint_particle ''py'' = JNum (Fin 0)"
    "get_field faint_particle ''pz'' = JNum (Fin 0)"
    by (simp_all add: faint_particle_def e_def)
  show "get_field (derived_of fp faint_particle) ''pt'' = JNum (Fin 0)"
    "get_field (derived_of fp faint_particle) ''momentum'' = JNum (Fin 0)"
    by (simp_all add: derived_of_def g eu Let_def)
  show "generateSimpleTrajectory fp faint_particle = JArr [point_obj (Fin 0) (Fin 0) (Fin 0)]"
    by (simp add: generateSimpleTrajectory_def g eu Let_def)
qed




subsection \<open>Synthesized trajectories\<close>










subsection \<open>When validation fails\<close>

lemma not_Inl_iff: "(\<exists>e. r = Inl e) = (\<not> (\<exists>v. r = Inr v))"
  by (cases r) simp_all

lemma validatePoint_fails_iff:
  "(\<exists>e. validatePoint index point pointIndex = Inl e) = point_schema_fails point"
  by (auto simp: validatePoint_def point_schema_fails_def)

lemma validatePoints_fails_iff:
  "(\<exists>e. validatePoints index points pointIndex = Inl e) = (\<exists>point \<in> set points. point_schema_fails point)"
proof (induction points arbitrary: pointIndex)
  case Nil
  then show ?case by simp
next
  case (Cons p ps)
  show ?case
  proof (cases "validatePoint index p pointIndex")
    case (Inl e)
    then have "point_schema_fails p" using validatePoint_fails_iff [of index p pointIndex] by simp
    with Inl show ?thesis by simp
  next
    case (Inr q)
    then have np: "\<not> point_schema_fails p" using validatePoint_fails_iff [of index p pointIndex] by simp
    show ?thesis
    proof (cases "validatePoints index ps (Suc pointIndex)")
      case (Inl e)
      with Cons.IH [of "Suc pointIndex"] have "\<exists>point \<in> set ps. point_schema_fails point" by simp
      with Inl Inr show ?thesis by simp
    next
      case (Inr qs)
      with Cons.IH [of "Suc pointIndex"] have "\<not> (\<exists>point \<in> set ps. point_schema_fails point)" by simp
      with Inr \<open>validatePoint index p pointIndex = Inr q\<close> np show ?thesis by simp
    qed
  qed
qed

lemma non_object_lacks_fields:
  "\<not> truthy v \<or> typeof v \<noteq> ''object'' \<Longrightarrow> \<not> has_field v k"
  by (cases v) auto


lemma find_Some_ex: "find P xs = Some x \<Longrightarrow> \<exists>y \<in> set xs. P y"
  by (auto simp: find_Some_iff)

lemma find_None_ex: "find P xs = None \<Longrightarrow> \<not> (\<exists>y \<in> set xs. P y)"
  by (simp add: find_None_iff)

lemma validateParticle_fails_iff:
  "(\<exists>e. validateParticle fp particle index = Inl e) = particle_fails particle"
proof -
  let ?A = "\<exists>field \<in> set particle_required. \<not> has_field particle field"
  let ?B = "\<exists>field \<in> set numericFields.
              typeof (get_field particle field) \<noteq> ''number'' \<or> isNaN (get_field particle field)"
  let ?C = "case get_field particle ''trajectory'' of
              JArr points \<Rightarrow> \<exists>point \<in> set points. point_schema_fails point
            | _ \<Rightarrow> False"
  let ?D = "truthy (get_field particle ''trajectory'') \<and> \<not> isArray (get_field particle ''trajectory'')"
  have pf: "particle_fails particle = (?A \<or> ?B \<or> ?C \<or> ?D)"
    unfolding particle_fails_def spec_particle_fails_def particle_required_def numericFields_def
    by blast
  show ?thesis
  proof (cases "\<not> truthy particle \<or> typeof particle \<noteq> ''object''")
    case True
    then have "\<not> has_field particle ''id''" by (rule non_object_lacks_fields)
    then have ?A by (simp add: particle_required_def)
    moreover from True have "validateParticle fp particle index = Inl (ParticleNotObject index)"
      unfolding validateParticle_def by (simp only: if_True)
    ultimately show ?thesis by (simp add: pf)
  next
    case obj: False
    show ?thesis
    proof (cases "find (\<lambda>field. \<not> has_field particle field) particle_required")
      case (Some f)
      then have ?A by (rule find_Some_ex)
      moreover from obj Some have "validateParticle fp particle index = Inl (ParticleMissingField index f)"
        unfolding validateParticle_def by (simp only: if_False option.case)
      ultimately show ?thesis by (simp add: pf)
    next
      case req: None
      then have nA: "\<not> ?A" by (rule find_None_ex)
      show ?thesis
      proof (cases "find (\<lambda>field. typeof (get_field particle field) \<noteq> ''number'' \<or> isNaN (get_field particle field)) numericFields")
        case (Some f)
        then have ?B by (rule find_Some_ex)
        moreover from obj req Some have "validateParticle fp particle index = Inl (ParticleFieldNotNumber index f)"
          unfolding validateParticle_def by (simp only: if_False option.case)
        ultimately show ?thesis by (simp add: pf)
      next
        case num: None
        then have nB: "\<not> ?B" by (rule find_None_ex)
        have body: "validateParticle fp particle index =
             (case (if truthy (get_field particle ''trajectory'')
                   then (case get_field particle ''trajectory'' of
                           JArr points \<Rightarrow> (case validatePoints index points 0 of
                                             Inl e \<Rightarrow> Inl e
                                           | Inr qs \<Rightarrow> Inr (JArr qs))
                         | _ \<Rightarrow> Inl (TrajectoryNotArray index))
                   else Inr (generateSimpleTrajectory fp particle)) of
                 Inl e \<Rightarrow> Inl e
               | Inr trajectory' \<Rightarrow>
                   Inr (JObj (AList.update ''derived'' (derived_of fp particle)
                               (AList.update ''trajectory'' trajectory' (spread particle)))))"
          using obj req num unfolding validateParticle_def
          by (simp only: if_False option.case Let_def)
        have "(\<exists>e. validateParticle fp particle index = Inl e) = (?C \<or> ?D)"
        proof (cases "truthy (get_field particle ''trajectory'')")
          case False
          then have "\<not> ?D" by simp
          moreover from False have "\<not> ?C" by (cases "get_field particle ''trajectory''") simp_all
          moreover from False have "\<exists>v. validateParticle fp particle index = Inr v"
            by (simp add: body)
          ultimately show ?thesis by auto
        next
          case True
          show ?thesis
          proof (cases "get_field particle ''trajectory''")
            case (JArr points)
            have "(\<exists>e. validateParticle fp particle index = Inl e) = (\<exists>e. validatePoints index points 0 = Inl e)"
              by (cases "validatePoints index points 0") (simp_all add: body JArr)
            then show ?thesis by (simp add: validatePoints_fails_iff JArr)
          qed (use True in \<open>simp_all add: body\<close>)
        qed
        with nA nB show ?thesis by (simp only: pf simp_thms)
      qed
    qed
  qed
qed

lemma validateParticles_fails_iff:
  "(\<exists>e. validateParticles fp ps index = Inl e) = (\<exists>particle \<in> set ps. particle_fails particle)"
proof (induction ps arbitrary: index)
  case Nil
  then show ?case by simp
next
  case (Cons p ps)
  show ?case
  proof (cases "validateParticle fp p index")
    case (Inl e)
    then have "particle_fails p" using validateParticle_fails_iff [of fp p index] by simp
    with Inl show ?thesis by simp
  next
    case (Inr v)
    then have np: "\<not> particle_fails p" using validateParticle_fails_iff [of fp p index] by simp
    show ?thesis
    proof (cases "validateParticles fp ps (Suc index)")
      case (Inl e)
      with Cons.IH [of "Suc index"] have "\<exists>particle \<in> set ps. particle_fails particle" by simp
      with Inl Inr show ?thesis by simp
    next
      case (Inr vs)
      with Cons.IH [of "Suc index"] have "\<not> (\<exists>particle \<in> set ps. particle_fails particle)" by simp
      with Inr \<open>validateParticle fp p index = Inr v\<close> np show ?thesis by simp
    qed
  qed
qed


lemma non_object_field_undefined:
  "\<not> truthy v \<or> typeof v \<noteq> ''object'' \<Longrightarrow> get_field v k = JUndefined"
  by (cases v) auto

text \<open>
  C5, as the code has it. Validation fails exactly when one of the specified conditions
  holds or some particle has a trajectory that is present but is not a sequence; it
  returns a validated event exactly when none of them holds. A failure in any particle
  or point fails the whole call: there is no partial result.
\<close>

theorem validateEvent_fails_iff:
  "(\<exists>e. validateEvent fp now eventData = Inl e) = event_fails eventData
   \<and> (\<exists>out. validateEvent fp now eventData = Inr out) = (\<not> event_fails eventData)"
proof -
  let ?A = "\<exists>field \<in> set event_required. \<not> has_field eventData field"
  let ?V = "typeof (get_field (get_field eventData ''vertex'') ''x'') \<noteq> ''number''
            \<or> typeof (get_field (get_field eventData ''vertex'') ''y'') \<noteq> ''number''
            \<or> typeof (get_field (get_field eventData ''vertex'') ''z'') \<noteq> ''number''"
  let ?P = "\<not> isArray (get_field eventData ''particles'')"
  let ?Q = "case get_field eventData ''particles'' of
              JArr particles \<Rightarrow> \<exists>particle \<in> set particles. particle_fails particle
            | _ \<Rightarrow> False"
  have ef: "event_fails eventData = (?A \<or> ?V \<or> ?P \<or> ?Q)"
    unfolding event_fails_def event_fails_with_def event_required_def by blast
  have main: "(\<exists>e. validateEvent fp now eventData = Inl e) = event_fails eventData"
  proof (cases "\<not> truthy eventData \<or> typeof eventData \<noteq> ''object''")
    case True
    then have "\<not> has_field eventData ''event_id''" by (rule non_object_lacks_fields)
    then have ?A by (simp add: event_required_def)
    moreover from True have "validateEvent fp now eventData = Inl EventNotObject"
      unfolding validateEvent_def by (simp only: if_True)
    ultimately show ?thesis by (simp add: ef)
  next
    case obj: False
    show ?thesis
    proof (cases "find (\<lambda>field. \<not> has_field eventData field) event_required")
      case (Some f)
      then have ?A by (rule find_Some_ex)
      moreover from obj Some have "validateEvent fp now eventData = Inl (MissingField f)"
        unfolding validateEvent_def by (simp only: if_False option.case)
      ultimately show ?thesis by (simp add: ef)
    next
      case req: None
      then have nA: "\<not> ?A" by (rule find_None_ex)
      show ?thesis
      proof (cases "\<not> truthy (get_field eventData ''vertex'') \<or> typeof (get_field eventData ''vertex'') \<noteq> ''object''")
        case True
        then have "get_field (get_field eventData ''vertex'') ''x'' = JUndefined"
          by (rule non_object_field_undefined)
        then have ?V by simp
        moreover from obj req True have "validateEvent fp now eventData = Inl VertexNotObject"
          unfolding validateEvent_def by (simp only: if_False option.case Let_def if_True)
        ultimately show ?thesis by (simp add: ef)
      next
        case vobj: False
        show ?thesis
        proof (cases ?V)
          case True
          with obj req vobj have "validateEvent fp now eventData = Inl VertexNotNumbers"
            unfolding validateEvent_def by (simp only: if_False option.case Let_def if_True)
          with True show ?thesis by (simp add: ef)
        next
          case nV: False
          have body: "validateEvent fp now eventData =
             (case get_field eventData ''particles'' of
                JArr particles \<Rightarrow>
                  (case validateParticles fp particles 0 of
                     Inl e \<Rightarrow> Inl e
                   | Inr validatedParticles \<Rightarrow>
                       Inr (JObj (AList.update ''metadata''
                             (JObj (AList.update ''validated_at'' (JStr now)
                                     (AList.update ''particle_count'' (JNum (Fin (real (length validatedParticles))))
                                       (spread (get_field eventData ''metadata'')))))
                             (AList.update ''particles'' (JArr validatedParticles) (spread eventData)))))
              | _ \<Rightarrow> Inl ParticlesNotArray)"
            using obj req vobj nV unfolding validateEvent_def
            by (simp only: if_False option.case Let_def)
          have "(\<exists>e. validateEvent fp now eventData = Inl e) = (?P \<or> ?Q)"
          proof (cases "get_field eventData ''particles''")
            case (JArr particles)
            have "(\<exists>e. validateEvent fp now eventData = Inl e) = (\<exists>e. validateParticles fp particles 0 = Inl e)"
              by (cases "validateParticles fp particles 0") (simp_all add: body JArr)
            then show ?thesis by (simp add: validateParticles_fails_iff JArr)
          qed (simp_all add: body)
          with nA nV show ?thesis by (simp only: ef simp_thms)
        qed
      qed
    qed
  qed
  then show ?thesis using not_Inl_iff [of "validateEvent fp now eventData"] by blast
qed

theorem validateEvent_fails_iff_witness:
  "event_fails bad_trajectory_event
   \<and> (\<exists>e. validateEvent exact_engine ''2024-01-01T00:00:00.000Z'' bad_trajectory_event = Inl e)
   \<and> \<not> event_fails sample_event
   \<and> (\<exists>out. validateEvent exact_engine ''2024-01-01T00:00:00.000Z'' sample_event = Inr out)"
proof -
  have "validateEvent exact_engine ''2024-01-01T00:00:00.000Z'' bad_trajectory_event = Inl (TrajectoryNotArray 0)"
    by (simp add: validateEvent_def bad_trajectory_event_def event_required_def point_obj_def
      validateParticle_def particle_required_def numericFields_def Let_def)
  moreover have "\<exists>out. validateEvent exact_engine ''2024-01-01T00:00:00.000Z'' sample_event = Inr out"
    by (rule sample_event_valid)
  ultimately show ?thesis
    using validateEvent_fails_iff [of exact_engine "''2024-01-01T00:00:00.000Z''" bad_trajectory_event]
      validateEvent_fails_iff [of exact_engine "''2024-01-01T00:00:00.000Z''" sample_event]
    by simp
qed

text \<open>
  C5 as stated fails in one direction: the event below meets none of the listed
  conditions, yet validation rejects it because the trajectory is a string.
\<close>

theorem validateEvent_fails_counterexample:
  "validateEvent exact_engine ''2024-01-01T00:00:00.000Z'' bad_trajectory_event = Inl (TrajectoryNotArray 0)
   \<and> \<not> spec_event_fails bad_trajectory_event"
  by (simp add: validateEvent_def bad_trajectory_event_def event_required_def point_obj_def
      validateParticle_def particle_required_def numericFields_def Let_def
      spec_event_fails_def event_fails_with_def spec_particle_fails_def)

section \<open>Properties of the renderer\<close>

subsection \<open>Filters\<close>

lemma filterByEnergy_narrows:
  assumes "i < length (trackObjects s)"
  shows "visible (trackObjects (filterByEnergy lo hi s) ! i) \<longrightarrow> visible (trackObjects s ! i)"
  using assms by (simp add: filterByEnergy_def)

lemma filterByPt_narrows:
  assumes "i < length (trackObjects s)"
  shows "visible (trackObjects (filterByPt lo hi s) ! i) \<longrightarrow> visible (trackObjects s ! i)"
  using assms by (simp add: filterByPt_def)

lemma filterByType_overwrites:
  assumes "i < length (trackObjects s)"
  shows "visible (trackObjects (filterByType ts s) ! i)
         = (ts = [] \<or> p_type (ud_particle (userData (trackObjects s ! i))) \<in> set ts)"
  using assms by (simp add: filterByType_def)

lemma filter_pipeline:
  assumes "i < length (trackObjects s)"
  shows "visible (trackObjects (filterByPt pl ph (filterByEnergy el eh (filterByType ts s))) ! i)
         = ((ts = [] \<or> p_type (ud_particle (userData (trackObjects s ! i))) \<in> set ts)
            \<and> (num_le el (Fin (p_E (ud_particle (userData (trackObjects s ! i)))))
                \<and> num_le (Fin (p_E (ud_particle (userData (trackObjects s ! i))))) eh)
            \<and> (num_le pl (Fin (td_pt (ud_trackData (userData (trackObjects s ! i)))))
                \<and> num_le (Fin (td_pt (ud_trackData (userData (trackObjects s ! i))))) ph))"
  using assms by (simp add: filterByPt_def filterByEnergy_def filterByType_def)

lemmas tracks_eval = loadTracks_def clearTracks_def constructor_def maxTracks_def
  createParticleTrack_def config_of_def PARTICLE_CONFIG_def createDetailedTrack_def
  createDirectionArrow_def startAnimation_def animateFrame_def setScales_def modify_def
  animationDuration_def easeOutCubic_def Let_def

lemma two_track_state_objects: "length (trackObjects two_track_state) = 4"
  by (simp add: two_track_state_def electron_track_def muon_track_def tracks_eval)

text \<open>
  C1, as the code has it. \<open>filterByEnergy\<close> and \<open>filterByPt\<close> only narrow: neither turns an
  invisible object visible. \<open>filterByType\<close> does not combine with the current flag: it sets
  the flag to the result of the type test, whatever the flag was. Called in the order
  type, energy, pt, the three leave an object visible exactly when it passes all three
  tests.
\<close>

theorem filters_narrow_except_type:
  assumes "i < length (trackObjects s)"
  shows "(visible (trackObjects (filterByEnergy lo hi s) ! i) \<longrightarrow> visible (trackObjects s ! i))
       \<and> (visible (trackObjects (filterByPt lo hi s) ! i) \<longrightarrow> visible (trackObjects s ! i))
       \<and> visible (trackObjects (filterByType ts s) ! i)
           = (ts = [] \<or> p_type (ud_particle (userData (trackObjects s ! i))) \<in> set ts)
       \<and> visible (trackObjects (filterByPt pl ph (filterByEnergy el eh (filterByType ts s))) ! i)
           = ((ts = [] \<or> p_type (ud_particle (userData (trackObjects s ! i))) \<in> set ts)
              \<and> (num_le el (Fin (p_E (ud_particle (userData (trackObjects s ! i)))))
                  \<and> num_le (Fin (p_E (ud_particle (userData (trackObjects s ! i))))) eh)
              \<and> (num_le pl (Fin (td_pt (ud_trackData (userData (trackObjects s ! i)))))
                  \<and> num_le (Fin (td_pt (ud_trackData (userData (trackObjects s ! i))))) ph))"
  using filterByEnergy_narrows [OF assms] filterByPt_narrows [OF assms]
    filterByType_overwrites [OF assms] filter_pipeline [OF assms]
  by blast

theorem filters_narrow_except_type_witness:
  "2 < length (trackObjects two_track_state)
   \<and> \<not> visible (trackObjects (filterByEnergy (Fin 10) PInf two_track_state) ! 2)
   \<and> visible (trackObjects (filterByType [''muon''] two_track_state) ! 2)
   \<and> \<not> visible (trackObjects (filterByPt (Fin 0) PInf (filterByEnergy (Fin 10) PInf
                   (filterByType [''muon''] two_track_state))) ! 2)"
proof -
  have l: "2 < length (trackObjects two_track_state)"
    by (simp add: two_track_state_objects)
  have ob: "p_type (ud_particle (userData (trackObjects two_track_state ! 2))) = ''muon''"
    "p_E (ud_particle (userData (trackObjects two_track_state ! 2))) = 5"
    by (simp_all add: two_track_state_def electron_track_def muon_track_def tracks_eval)
  have v: "visible (trackObjects two_track_state ! 2)"
    by (simp add: two_track_state_def electron_track_def muon_track_def tracks_eval)
  have e: "\<not> visible (trackObjects (filterByEnergy (Fin 10) PInf two_track_state) ! 2)"
    using l by (simp add: filterByEnergy_def ob)
  from filters_narrow_except_type [OF l, of "Fin 10" PInf "[''muon'']" "Fin 0" PInf "Fin 10" PInf] ob l e
  show ?thesis by simp
qed

text \<open>
  C1 as stated fails for \<open>filterByType\<close>: the muon of energy 5 is hidden by an energy
  filter from 10 upwards, and a later call of the type filter with \<open>muon\<close> shows it again.
\<close>

theorem filter_narrowing_counterexample:
  "\<not> visible (trackObjects (filterByEnergy (Fin 10) PInf two_track_state) ! 2)
   \<and> visible (trackObjects (filterByType [''muon''] (filterByEnergy (Fin 10) PInf two_track_state)) ! 2)"
proof -
  have l: "2 < length (trackObjects two_track_state)"
    by (simp add: two_track_state_objects)
  have ob: "p_type (ud_particle (userData (trackObjects two_track_state ! 2))) = ''muon''"
    "p_E (ud_particle (userData (trackObjects two_track_state ! 2))) = 5"
    by (simp_all add: two_track_state_def electron_track_def muon_track_def tracks_eval)
  show ?thesis using l by (simp add: filterByEnergy_def filterByType_def ob)
qed

subsection \<open>Rendering mode, down-sampling and opacity\<close>

lemma modify_length [simp]: "length (modify i f xs) = length xs"
  by (simp add: modify_def)

lemma modify_map:
  assumes "\<And>x. g (f x) = g x"
  shows "map g (modify i f xs) = map g xs"
proof (cases "i < length xs")
  case True
  have "map g (xs[i := f (xs ! i)]) = (map g xs)[i := g (xs ! i)]"
    by (simp add: map_update assms)
  also have "\<dots> = (map g xs)[i := map g xs ! i]" using True by simp
  also have "\<dots> = map g xs" by (rule list_update_id)
  finally show ?thesis using True by (simp add: modify_def)
next
  case False
  then show ?thesis by (simp add: modify_def)
qed

lemma setScales_map:
  assumes "\<And>ob x. g (ob\<lparr>scale := x\<rparr>) = g ob"
  shows "map g (setScales f ats objs) = map g objs"
  unfolding setScales_def
proof (induction ats arbitrary: objs)
  case Nil
  then show ?case by simp
next
  case (Cons a ats)
  have "map g (modify (mesh a) (\<lambda>ob. ob\<lparr>scale := f a\<rparr>) objs) = map g objs"
    by (rule modify_map) (simp add: assms)
  with Cons.IH [of "modify (mesh a) (\<lambda>ob. ob\<lparr>scale := f a\<rparr>) objs"] show ?case by simp
qed

lemma animateFrame_map:
  assumes "\<And>ob x. g (ob\<lparr>scale := x\<rparr>) = g ob"
  shows "map g (trackObjects (animateFrame t s)) = map g (trackObjects s)"
  by (simp add: animateFrame_def Let_def setScales_map [of g, OF assms])

lemma startAnimation_map:
  assumes "\<And>ob x. g (ob\<lparr>scale := x\<rparr>) = g ob"
  shows "map g (trackObjects (startAnimation t0 t1 s)) = map g (trackObjects s)"
  by (simp add: startAnimation_def Let_def animateFrame_map [of g, OF assms] setScales_map [of g, OF assms])

lemma animateFrame_mode [simp]: "useSimplifiedRendering (animateFrame t s) = useSimplifiedRendering s"
  by (simp add: animateFrame_def Let_def)

lemma startAnimation_mode [simp]: "useSimplifiedRendering (startAnimation t0 t1 s) = useSimplifiedRendering s"
  by (simp add: startAnimation_def Let_def)

lemma built_as_scale [simp]: "built_as m (ob\<lparr>scale := x\<rparr>) = built_as m ob"
  by (simp add: built_as_def Let_def split: geometry.splits)

lemma scale_insensitive_all:
  assumes "map (\<lambda>ob. ob\<lparr>scale := 0\<rparr>) objs' = map (\<lambda>ob. ob\<lparr>scale := 0\<rparr>) objs"
    and "\<And>ob x. Q (ob\<lparr>scale := x\<rparr>) = Q ob"
    and "ob' \<in> set objs'"
  shows "\<exists>ob \<in> set objs. Q ob = Q ob' \<and> ob\<lparr>scale := 0\<rparr> = ob'\<lparr>scale := 0\<rparr>"
proof -
  from assms(3) have "ob'\<lparr>scale := 0\<rparr> \<in> set (map (\<lambda>ob. ob\<lparr>scale := 0\<rparr>) objs')" by simp
  with assms(1) have "ob'\<lparr>scale := 0\<rparr> \<in> set (map (\<lambda>ob. ob\<lparr>scale := 0\<rparr>) objs)" by simp
  then obtain ob where ob: "ob \<in> set objs" "ob\<lparr>scale := 0\<rparr> = ob'\<lparr>scale := 0\<rparr>" by auto
  have "Q ob = Q (ob\<lparr>scale := 0\<rparr>)" by (simp add: assms(2))
  also have "\<dots> = Q ob'" by (simp add: ob(2) assms(2))
  finally show ?thesis using ob by blast
qed

lemma createParticleTrack_mode [simp]:
  "useSimplifiedRendering (createParticleTrack p v i r s) = useSimplifiedRendering s"
  by (simp add: createParticleTrack_def createDetailedTrack_def createSimplifiedTrack_def
      createDirectionArrow_def Let_def)

lemma createParticleTracks_mode [simp]:
  "useSimplifiedRendering (createParticleTracks ps v i rnd s) = useSimplifiedRendering s"
  by (induction ps arbitrary: i s) simp_all

lemma createParticleTrack_built_as:
  assumes "\<forall>ob \<in> set (trackObjects s). built_as (useSimplifiedRendering s) ob"
  shows "\<forall>ob \<in> set (trackObjects (createParticleTrack p v i r s)). built_as (useSimplifiedRendering s) ob"
  using assms
  by (auto simp: createParticleTrack_def createDetailedTrack_def createSimplifiedTrack_def
      createDirectionArrow_def Let_def built_as_def)

lemma createParticleTracks_built_as:
  assumes "\<forall>ob \<in> set (trackObjects s). built_as (useSimplifiedRendering s) ob"
  shows "\<forall>ob \<in> set (trackObjects (createParticleTracks ps v i rnd s)). built_as (useSimplifiedRendering s) ob"
  using assms
proof (induction ps arbitrary: i s)
  case Nil
  then show ?case by simp
next
  case (Cons p ps)
  from createParticleTrack_built_as [OF Cons.prems, of p v i "rnd i"]
  have "\<forall>ob \<in> set (trackObjects (createParticleTrack p v i (rnd i) s)).
          built_as (useSimplifiedRendering (createParticleTrack p v i (rnd i) s)) ob"
    by simp
  from Cons.IH [OF this, of "Suc i"] show ?case by simp
qed

lemma loadTracks_mode: "useSimplifiedRendering (loadTracks ps v rnd t0 t1 s) = (500 < length ps)"
  by (simp add: loadTracks_def Let_def maxTracks_def)

lemma loadTracks_built_as:
  assumes "ob \<in> set (trackObjects (loadTracks ps v rnd t0 t1 s))"
  shows "built_as (500 < length ps) ob"
proof -
  define s2 where "s2 = (if length ps > maxTracks
                then (clearTracks s)\<lparr>useSimplifiedRendering := True\<rparr>
                else (clearTracks s)\<lparr>useSimplifiedRendering := False\<rparr>)"
  define s3 where "s3 = createParticleTracks ps v 0 rnd s2"
  have m: "useSimplifiedRendering s2 = (500 < length ps)" by (simp add: s2_def maxTracks_def)
  have "trackObjects s2 = []" by (simp add: s2_def clearTracks_def)
  then have "\<forall>ob \<in> set (trackObjects s2). built_as (useSimplifiedRendering s2) ob" by simp
  from createParticleTracks_built_as [OF this, of ps v 0 rnd]
  have all3: "\<forall>ob \<in> set (trackObjects s3). built_as (500 < length ps) ob" by (simp add: s3_def m)
  have l: "loadTracks ps v rnd t0 t1 s = startAnimation t0 t1 s3"
    by (simp add: loadTracks_def Let_def s3_def s2_def)
  have "map (\<lambda>ob. ob\<lparr>scale := 0\<rparr>) (trackObjects (startAnimation t0 t1 s3)) = map (\<lambda>ob. ob\<lparr>scale := 0\<rparr>) (trackObjects s3)"
    by (rule startAnimation_map) simp
  from scale_insensitive_all [OF this, of "built_as (500 < length ps)" ob] assms l
  obtain ob0 where "ob0 \<in> set (trackObjects s3)" "built_as (500 < length ps) ob0 = built_as (500 < length ps) ob"
    by auto
  with all3 show ?thesis by auto
qed


lemma simplifiedLoop_count:
  assumes "0 < step" "i < n"
  shows "(n - i + step - 1) div step = Suc ((n - (i + step) + step - 1) div step)"
proof (cases "i + step \<le> n")
  case True
  define d where "d = n - (i + step)"
  have a: "n - i + step - 1 = (d + step - 1) + step" "n - (i + step) + step - 1 = d + step - 1"
    using True assms by (simp_all add: d_def)
  have "((d + step - 1) + step) div step = Suc ((d + step - 1) div step)"
    using assms(1) by (simp only: div_add_self2 less_numeral_extra(3))
  then show ?thesis by (simp only: a)
next
  case False
  then have a: "n - (i + step) + step - 1 = step - 1" by simp
  from False assms have b: "step \<le> n - i + step - 1" "n - i + step - 1 < 2 * step" by simp_all
  have "(n - i + step - 1) div step = 1"
  proof -
    have "(n - i + step - 1) div step = (n - i - 1 + step) div step" using assms by simp
    also have "\<dots> = (n - i - 1) div step + 1" using assms(1) by simp
    also have "(n - i - 1) div step = 0" using False assms by simp
    finally show ?thesis by simp
  qed
  moreover have "(step - 1) div step = 0" using assms(1) by simp
  ultimately show ?thesis using a by simp
qed

lemma simplifiedLoop_eq:
  "0 < step \<Longrightarrow> simplifiedLoop i step xs
     = map (\<lambda>k. xs ! (i + k * step)) [0..<(length xs - i + step - 1) div step]"
proof (induction i step xs rule: simplifiedLoop.induct)
  case (1 i step xs)
  show ?case
  proof (cases "i < length xs")
    case True
    with 1 have IH: "simplifiedLoop (i + step) step xs
       = map (\<lambda>k. xs ! (i + step + k * step)) [0..<(length xs - (i + step) + step - 1) div step]"
      by simp
    have c: "(length xs - i + step - 1) div step = Suc ((length xs - (i + step) + step - 1) div step)"
      using "1.prems" True by (rule simplifiedLoop_count)
    have "simplifiedLoop i step xs = xs ! i # simplifiedLoop (i + step) step xs"
      using True "1.prems" by (subst simplifiedLoop.simps) simp
    also have "\<dots> = xs ! i # map (\<lambda>k. xs ! (i + step + k * step)) [0..<(length xs - (i + step) + step - 1) div step]"
      by (simp only: IH)
    also have "\<dots> = map (\<lambda>k. xs ! (i + k * step)) [0..<Suc ((length xs - (i + step) + step - 1) div step)]"
      by (simp add: upt_conv_Cons map_Suc_upt [symmetric] add.assoc del: upt_Suc)
    finally show ?thesis by (simp only: c)
  next
    case False
    then have "simplifiedLoop i step xs = []" by (subst simplifiedLoop.simps) simp
    moreover from False "1.prems" have "(length xs - i + step - 1) div step = 0" by simp
    ultimately show ?thesis by simp
  qed
qed

lemma sample_count_bounds:
  assumes "8 \<le> (n::nat)"
  shows "8 \<le> (n + n div 8 - 1) div (n div 8)" and "(n + n div 8 - 1) div (n div 8) \<le> 15"
proof -
  define st where "st = n div 8"
  have st: "1 \<le> st" using assms by (simp add: st_def)
  have lo: "8 * st \<le> n" by (simp add: st_def)
  have hi: "n < 8 * st + 8" using div_mult_mod_eq [of n 8] by (simp add: st_def)
  have "8 * st \<le> n + st - 1" using lo st by simp
  then have "8 * st div st \<le> (n + st - 1) div st" by (rule div_le_mono)
  then show "8 \<le> (n + n div 8 - 1) div (n div 8)" using st by (simp add: st_def)
  have "n + st - 1 < 16 * st" using hi st by simp
  then have "(n + st - 1) div st < 16" by (rule less_mult_imp_div_less)
  then show "(n + n div 8 - 1) div (n div 8) \<le> 15" by (simp add: st_def)
qed

lemma simplifiedPoints_eq:
  assumes "10 < length xs"
  shows "simplifiedPoints xs
           = map (\<lambda>k. xs ! (k * (length xs div 8))) [0..<(length xs + length xs div 8 - 1) div (length xs div 8)]
             @ [xs ! (length xs - 1)]"
    and "length (simplifiedPoints xs) = Suc ((length xs + length xs div 8 - 1) div (length xs div 8))"
    and "last (simplifiedPoints xs) = last xs"
proof -
  have st: "max 1 (length xs div 8) = length xs div 8" "0 < length xs div 8" using assms by simp_all
  have pos: "0 < (length xs + length xs div 8 - 1) div (length xs div 8)"
    using sample_count_bounds(1) [of "length xs"] assms by simp
  have loop: "simplifiedLoop 0 (length xs div 8) xs
           = map (\<lambda>k. xs ! (k * (length xs div 8))) [0..<(length xs + length xs div 8 - 1) div (length xs div 8)]"
    using simplifiedLoop_eq [OF st(2), of 0 xs] by simp
  show eq: "simplifiedPoints xs
           = map (\<lambda>k. xs ! (k * (length xs div 8))) [0..<(length xs + length xs div 8 - 1) div (length xs div 8)]
             @ [xs ! (length xs - 1)]"
    unfolding simplifiedPoints_def Let_def st(1) loop using pos by simp
  show "length (simplifiedPoints xs) = Suc ((length xs + length xs div 8 - 1) div (length xs div 8))"
    by (simp add: eq)
  have "xs \<noteq> []" using assms by auto
  then show "last (simplifiedPoints xs) = last xs"
    by (simp add: eq last_conv_nth)
qed


lemma shows_particle_scale [simp]: "shows_particle p i (ob\<lparr>scale := x\<rparr>) = shows_particle p i ob"
  by (simp add: shows_particle_def)

lemma createParticleTrack_appends:
  "\<exists>ys. trackObjects (createParticleTrack p v i r s) = trackObjects s @ ys"
  by (simp add: createParticleTrack_def createDetailedTrack_def createSimplifiedTrack_def
      createDirectionArrow_def Let_def)

lemma createParticleTracks_appends:
  "\<exists>ys. trackObjects (createParticleTracks ps v i rnd s) = trackObjects s @ ys"
proof (induction ps arbitrary: i s)
  case Nil
  then show ?case by simp
next
  case (Cons p ps)
  obtain ys where ys: "trackObjects (createParticleTrack p v i (rnd i) s) = trackObjects s @ ys"
    using createParticleTrack_appends by blast
  obtain zs where "trackObjects (createParticleTracks ps v (Suc i) rnd (createParticleTrack p v i (rnd i) s))
      = trackObjects (createParticleTrack p v i (rnd i) s) @ zs"
    using Cons.IH by blast
  with ys show ?case by simp
qed

lemma createParticleTrack_shows:
  assumes "p_trajectory p = Some t" "2 \<le> length t"
  shows "\<exists>ob \<in> set (trackObjects (createParticleTrack p v i r s)).
           shows_particle p i ob
           \<and> (if useSimplifiedRendering s \<and> 10 < length t
               then geometry ob = LineGeometry (simplifiedPoints t)
               else (case geometry ob of TubeGeometry pts radius \<Rightarrow> pts = t | _ \<Rightarrow> False))"
proof (rule bexI [where x = "trackObjects (createParticleTrack p v i r s) ! length (trackObjects s)"])
  show "shows_particle p i (trackObjects (createParticleTrack p v i r s) ! length (trackObjects s))
           \<and> (if useSimplifiedRendering s \<and> 10 < length t
               then geometry (trackObjects (createParticleTrack p v i r s) ! length (trackObjects s))
                      = LineGeometry (simplifiedPoints t)
               else (case geometry (trackObjects (createParticleTrack p v i r s) ! length (trackObjects s)) of
                       TubeGeometry pts radius \<Rightarrow> pts = t | _ \<Rightarrow> False))"
    using assms
    by (simp add: createParticleTrack_def createDetailedTrack_def createSimplifiedTrack_def
        createDirectionArrow_def Let_def shows_particle_def nth_append)
  show "trackObjects (createParticleTrack p v i r s) ! length (trackObjects s)
          \<in> set (trackObjects (createParticleTrack p v i r s))"
    using assms
    by (simp add: createParticleTrack_def createDetailedTrack_def createSimplifiedTrack_def
        createDirectionArrow_def Let_def nth_append)
qed

lemma createParticleTracks_shows:
  assumes "k < length ps" "p_trajectory (ps ! k) = Some t" "2 \<le> length t"
  shows "\<exists>ob \<in> set (trackObjects (createParticleTracks ps v i rnd s)).
           shows_particle (ps ! k) (i + k) ob
           \<and> (if useSimplifiedRendering s \<and> 10 < length t
               then geometry ob = LineGeometry (simplifiedPoints t)
               else (case geometry ob of TubeGeometry pts radius \<Rightarrow> pts = t | _ \<Rightarrow> False))"
  using assms
proof (induction ps arbitrary: i s k)
  case Nil
  then show ?case by simp
next
  case (Cons p ps)
  show ?case
  proof (cases k)
    case 0
    with Cons.prems have "p_trajectory p = Some t" by simp
    from createParticleTrack_shows [OF this Cons.prems(3), of v i "rnd i" s] obtain ob
      where ob: "ob \<in> set (trackObjects (createParticleTrack p v i (rnd i) s))"
        "shows_particle p i ob"
        "if useSimplifiedRendering s \<and> 10 < length t
               then geometry ob = LineGeometry (simplifiedPoints t)
               else (case geometry ob of TubeGeometry pts radius \<Rightarrow> pts = t | _ \<Rightarrow> False)"
      by blast
    obtain zs where "trackObjects (createParticleTracks ps v (Suc i) rnd (createParticleTrack p v i (rnd i) s))
      = trackObjects (createParticleTrack p v i (rnd i) s) @ zs"
      using createParticleTracks_appends by blast
    with ob(1) have "ob \<in> set (trackObjects (createParticleTracks (p # ps) v i rnd s))" by simp
    with ob(2,3) 0 show ?thesis by auto
  next
    case (Suc j)
    with Cons.prems have j: "j < length ps" "p_trajectory (ps ! j) = Some t" by simp_all
    from Cons.IH [OF j Cons.prems(3), of "Suc i" "createParticleTrack p v i (rnd i) s"]
    show ?thesis by (simp add: Suc)
  qed
qed

lemma loadTracks_shows:
  assumes "k < length ps" "p_trajectory (ps ! k) = Some t" "2 \<le> length t"
  shows "\<exists>ob \<in> set (trackObjects (loadTracks ps v rnd t0 t1 s)).
           shows_particle (ps ! k) k ob
           \<and> (if 500 < length ps \<and> 10 < length t
               then geometry ob = LineGeometry (simplifiedPoints t)
               else (case geometry ob of TubeGeometry pts radius \<Rightarrow> pts = t | _ \<Rightarrow> False))"
proof -
  define s2 where "s2 = (if length ps > maxTracks
                then (clearTracks s)\<lparr>useSimplifiedRendering := True\<rparr>
                else (clearTracks s)\<lparr>useSimplifiedRendering := False\<rparr>)"
  define s3 where "s3 = createParticleTracks ps v 0 rnd s2"
  define Q where "Q = (\<lambda>ob. shows_particle (ps ! k) k ob
           \<and> (if 500 < length ps \<and> 10 < length t
               then geometry ob = LineGeometry (simplifiedPoints t)
               else (case geometry ob of TubeGeometry pts radius \<Rightarrow> pts = t | _ \<Rightarrow> False)))"
  have m: "useSimplifiedRendering s2 = (500 < length ps)" by (simp add: s2_def maxTracks_def)
  have l: "loadTracks ps v rnd t0 t1 s = startAnimation t0 t1 s3"
    by (simp add: loadTracks_def Let_def s3_def s2_def)
  from createParticleTracks_shows [OF assms, of v 0 rnd s2]
  obtain ob where ob: "ob \<in> set (trackObjects s3)" "Q ob"
    by (auto simp: s3_def m Q_def)
  have Qs: "Q (ob\<lparr>scale := x\<rparr>) = Q ob" for ob x by (simp add: Q_def)
  have "map (\<lambda>ob. ob\<lparr>scale := 0\<rparr>) (trackObjects s3) = map (\<lambda>ob. ob\<lparr>scale := 0\<rparr>) (trackObjects (startAnimation t0 t1 s3))"
    by (rule startAnimation_map [symmetric]) simp
  from scale_insensitive_all [OF this, of Q ob] Qs ob(1)
  obtain ob' where "ob' \<in> set (trackObjects (startAnimation t0 t1 s3))" "Q ob' = Q ob" by auto
  with ob(2) l show ?thesis by (auto simp: Q_def)
qed

lemma long_track_simplified:
  "simplifiedPoints [(0, 0, 0), (1, 0, 0), (2, 0, 0), (3, 0, 0), (4, 0, 0), (5, 0, 0),
                     (6, 0, 0), (7, 0, 0), (8, 0, 0), (9, 0, 0), (10, 0, 0) :: vec3]
   = [(0, 0, 0), (1, 0, 0), (2, 0, 0), (3, 0, 0), (4, 0, 0), (5, 0, 0),
      (6, 0, 0), (7, 0, 0), (8, 0, 0), (9, 0, 0), (10, 0, 0), (10, 0, 0)]"
  by (simp add: simplifiedPoints_def simplifiedLoop.simps)

lemma crowded_first_object:
  "geometry (trackObjects crowded_state ! 0)
     = LineGeometry [(0, 0, 0), (1, 0, 0), (2, 0, 0), (3, 0, 0), (4, 0, 0), (5, 0, 0),
                     (6, 0, 0), (7, 0, 0), (8, 0, 0), (9, 0, 0), (10, 0, 0), (10, 0, 0)]"
  "opacity (material (trackObjects crowded_state ! 0)) = Some (4 / 5)"
  "p_E (ud_particle (userData (trackObjects crowded_state ! 0))) = 20"
proof -
  have "replicate (Suc 500) long_track = long_track # replicate 500 long_track"
    by (rule replicate_Suc)
  moreover have "Suc 500 = 501" by simp
  ultimately have "replicate 501 long_track = long_track # replicate 500 long_track"
    by (simp only:)
  moreover have "length (replicate 500 long_track) = 500" by (rule length_replicate)
  ultimately obtain rest where r: "replicate 501 long_track = long_track # rest" and lr: "length rest = 500"
    by blast
  define s2 where "s2 = (clearTracks constructor)\<lparr>useSimplifiedRendering := True\<rparr>"
  define s1 where "s1 = createParticleTrack long_track (0, 0, 0) 0 0 s2"
  define s3 where "s3 = createParticleTracks rest (0, 0, 0) (Suc 0) (\<lambda>index. 0) s1"
  have c: "crowded_state = startAnimation 0 0 s3"
    unfolding crowded_state_def r loadTracks_def
    by (simp add: Let_def maxTracks_def lr s3_def s1_def s2_def)
  have o1: "trackObjects s1
     = [\<lparr>geometry = LineGeometry (simplifiedPoints (the (p_trajectory long_track))),
          material = \<lparr>color = 33023, opacity = Some (8 / 10), emissive = None\<rparr>,
          userData = \<lparr>ud_particle = long_track,
                      ud_trackData = \<lparr>td_particle = long_track, td_config = config_of ''pion_plus'',
                                       td_trajectory = the (p_trajectory long_track),
                                       td_pt = 1, td_momentum = 1, td_index = 0\<rparr>,
                      originalColor = Some 33023, originalOpacity = Some (8 / 10), isArrow = False\<rparr>,
          visible = True, scale = 1, position = (0, 0, 0)\<rparr>]"
    by (simp add: s1_def s2_def createParticleTrack_def createSimplifiedTrack_def clearTracks_def
        constructor_def long_track_def Let_def)
       (simp add: config_of_def PARTICLE_CONFIG_def)
  obtain zs where "trackObjects s3 = trackObjects s1 @ zs"
    using createParticleTracks_appends unfolding s3_def by blast
  then have n3: "trackObjects s3 ! 0 = trackObjects s1 ! 0" "0 < length (trackObjects s3)"
    by (simp_all add: o1)
  have m: "map (\<lambda>ob. (geometry ob, material ob, userData ob)) (trackObjects crowded_state)
           = map (\<lambda>ob. (geometry ob, material ob, userData ob)) (trackObjects s3)"
    unfolding c by (rule startAnimation_map) simp
  from arg_cong [OF m, of length]
  have "length (trackObjects crowded_state) = length (trackObjects s3)"
    by simp
  with n3(2) have l: "0 < length (trackObjects crowded_state)" by simp
  have "(\<lambda>ob. (geometry ob, material ob, userData ob)) (trackObjects crowded_state ! 0)
        = map (\<lambda>ob. (geometry ob, material ob, userData ob)) (trackObjects crowded_state) ! 0"
    using l by simp
  also have "\<dots> = (\<lambda>ob. (geometry ob, material ob, userData ob)) (trackObjects s3 ! 0)"
    using n3(2) by (simp add: m)
  finally have e: "geometry (trackObjects crowded_state ! 0) = geometry (trackObjects s1 ! 0)"
    "material (trackObjects crowded_state ! 0) = material (trackObjects s1 ! 0)"
    "userData (trackObjects crowded_state ! 0) = userData (trackObjects s1 ! 0)"
    by (simp_all add: n3(1))
  show "geometry (trackObjects crowded_state ! 0)
     = LineGeometry [(0, 0, 0), (1, 0, 0), (2, 0, 0), (3, 0, 0), (4, 0, 0), (5, 0, 0),
                     (6, 0, 0), (7, 0, 0), (8, 0, 0), (9, 0, 0), (10, 0, 0), (10, 0, 0)]"
    by (simp add: e o1) (simp add: long_track_def long_track_simplified)
  show "opacity (material (trackObjects crowded_state ! 0)) = Some (4 / 5)"
    by (simp add: e o1)
  show "p_E (ud_particle (userData (trackObjects crowded_state ! 0))) = 20"
    by (simp add: e o1) (simp add: long_track_def)
qed

lemma energy_alpha_bounds:
  "min ((0::real) / 100) 1 * (7 / 10) + 3 / 10 = 3 / 10"
  "100 \<le> e \<Longrightarrow> min (e / 100) 1 * (7 / 10) + 3 / 10 = (1::real)"
  "0 \<le> e \<Longrightarrow> 3 / 10 \<le> min (e / 100) 1 * (7 / 10) + (3 / 10 :: real)"
  "min (e / 100) 1 * (7 / 10) + 3 / 10 \<le> (1::real)"
  by (simp_all add: min_def)

text \<open>
  C9, as the code has it. Right after a load, every tube (a track drawn in detail) has
  the opacity \<open>min(E / 100, 1) * 0.7 + 0.3\<close> of its particle's energy \<open>E\<close>, which is also
  its stored original opacity: \<open>0.3\<close> at zero energy, \<open>1\<close> from energy 100 on, and at least
  \<open>0.3\<close> whenever the energy is not negative. Every simplified line has the fixed
  opacity \<open>0.8\<close>, and every direction arrow \<open>0.9\<close>.
\<close>

theorem track_opacity:
  assumes "ob \<in> set (trackObjects (loadTracks particles vertex random startTime currentTime s))"
  shows "(case geometry ob of
            TubeGeometry pts radius \<Rightarrow>
              opacity (material ob) = Some (min (p_E (ud_particle (userData ob)) / 100) 1 * (7 / 10) + 3 / 10)
              \<and> originalOpacity (userData ob) = opacity (material ob)
          | LineGeometry pts \<Rightarrow>
              opacity (material ob) = Some (8 / 10) \<and> originalOpacity (userData ob) = opacity (material ob)
          | ConeGeometry \<Rightarrow> opacity (material ob) = Some (9 / 10))
       \<and> (p_E (ud_particle (userData ob)) = 0 \<longrightarrow>
             min (p_E (ud_particle (userData ob)) / 100) 1 * (7 / 10) + 3 / 10 = 3 / 10)
       \<and> (100 \<le> p_E (ud_particle (userData ob)) \<longrightarrow>
             min (p_E (ud_particle (userData ob)) / 100) 1 * (7 / 10) + 3 / 10 = 1)
       \<and> (0 \<le> p_E (ud_particle (userData ob)) \<longrightarrow>
             3 / 10 \<le> min (p_E (ud_particle (userData ob)) / 100) 1 * (7 / 10) + 3 / 10)"
proof -
  from loadTracks_built_as [OF assms]
  have "case geometry ob of
            TubeGeometry pts radius \<Rightarrow>
              opacity (material ob) = Some (min (p_E (ud_particle (userData ob)) / 100) 1 * (7 / 10) + 3 / 10)
              \<and> originalOpacity (userData ob) = opacity (material ob)
          | LineGeometry pts \<Rightarrow>
              opacity (material ob) = Some (8 / 10) \<and> originalOpacity (userData ob) = opacity (material ob)
          | ConeGeometry \<Rightarrow> opacity (material ob) = Some (9 / 10)"
    by (simp add: built_as_def Let_def split: geometry.splits)
  moreover have "p_E (ud_particle (userData ob)) = 0 \<longrightarrow>
             min (p_E (ud_particle (userData ob)) / 100) 1 * (7 / 10) + 3 / 10 = 3 / 10"
    by simp
  moreover have "100 \<le> p_E (ud_particle (userData ob)) \<longrightarrow>
             min (p_E (ud_particle (userData ob)) / 100) 1 * (7 / 10) + 3 / 10 = 1"
    using energy_alpha_bounds(2) by blast
  moreover have "0 \<le> p_E (ud_particle (userData ob)) \<longrightarrow>
             3 / 10 \<le> min (p_E (ud_particle (userData ob)) / 100) 1 * (7 / 10) + 3 / 10"
    using energy_alpha_bounds(3) by blast
  ultimately show ?thesis by blast
qed

theorem track_opacity_witness:
  "trackObjects two_track_state ! 0 \<in> set (trackObjects two_track_state)
   \<and> opacity (material (trackObjects two_track_state ! 0)) = Some (391 / 1000)
   \<and> originalOpacity (userData (trackObjects two_track_state ! 0)) = Some (391 / 1000)"
proof -
  have m: "trackObjects two_track_state ! 0 \<in> set (trackObjects two_track_state)"
    by (simp add: two_track_state_objects)
  have g: "geometry (trackObjects two_track_state ! 0)
           = TubeGeometry [(0, 0, 0), (3 / 13, 4 / 13, 12 / 13)] (Some (63 / 4000))"
    "p_E (ud_particle (userData (trackObjects two_track_state ! 0))) = 13"
    by (simp_all add: two_track_state_def electron_track_def muon_track_def tracks_eval)
  from track_opacity [OF m [unfolded two_track_state_def], folded two_track_state_def, THEN conjunct1]
  show ?thesis using m by (simp add: g)
qed

text \<open>
  C9 as stated fails for a simplified line, whose opacity is \<open>0.8\<close> while the formula
  gives \<open>0.44\<close> for its energy of 20, and for a negative energy, where the formula itself
  falls below \<open>0.3\<close>: energy \<open>-50\<close> gives \<open>-0.05\<close>.
\<close>

theorem track_opacity_counterexample:
  "opacity (material (trackObjects crowded_state ! 0)) = Some (4 / 5)
   \<and> min (p_E (ud_particle (userData (trackObjects crowded_state ! 0))) / 100) 1 * (7 / 10) + 3 / 10 = 11 / 25
   \<and> opacity (material (trackObjects negative_energy_state ! 0)) = Some (- (1 / 20))"
proof -
  have "opacity (material (trackObjects negative_energy_state ! 0)) = Some (- (1 / 20))"
    by (simp add: negative_energy_state_def negative_energy_track_def tracks_eval)
  then show ?thesis by (simp add: crowded_first_object)
qed


text \<open>
  C4, as the code has it. One load decides the mode for the whole batch: simplified
  exactly when there are more than 500 particles. Every particle with a trajectory of at
  least two points gets one object tagged with it. In simplified mode, a trajectory
  \<open>t\<close> of more than ten points is drawn as a line through the points at the indices
  \<open>0, d, 2d, ...\<close> below \<open>length t\<close>, where \<open>d = length t div 8\<close>, followed by the last point
  of \<open>t\<close>; there are between 8 and 15 such sampled points, so at most 16 points in all, and
  the last point of the line is the last point of the trajectory. Every other trajectory
  is drawn as a tube over all its points. No line exists outside simplified mode.
\<close>

theorem simplified_mode:
  "useSimplifiedRendering (loadTracks particles vertex random startTime currentTime s)
     = (500 < length particles)
   \<and> (\<forall>k < length particles. \<forall>t. p_trajectory (particles ! k) = Some t \<and> 2 \<le> length t \<longrightarrow>
         (\<exists>ob \<in> set (trackObjects (loadTracks particles vertex random startTime currentTime s)).
            shows_particle (particles ! k) k ob
            \<and> (if 500 < length particles \<and> 10 < length t
                then geometry ob
                       = LineGeometry
                           (map (\<lambda>j. t ! (j * (length t div 8)))
                                [0..<(length t + length t div 8 - 1) div (length t div 8)]
                            @ [t ! (length t - 1)])
                     \<and> 8 \<le> (length t + length t div 8 - 1) div (length t div 8)
                     \<and> (length t + length t div 8 - 1) div (length t div 8) \<le> 15
                else (case geometry ob of TubeGeometry pts radius \<Rightarrow> pts = t | _ \<Rightarrow> False))))
   \<and> (\<forall>ob \<in> set (trackObjects (loadTracks particles vertex random startTime currentTime s)).
         case geometry ob of
           LineGeometry pts \<Rightarrow>
             500 < length particles \<and> 10 < length (td_trajectory (ud_trackData (userData ob)))
             \<and> pts = simplifiedPoints (td_trajectory (ud_trackData (userData ob)))
             \<and> last pts = last (td_trajectory (ud_trackData (userData ob)))
             \<and> length pts \<le> 16
         | _ \<Rightarrow> True)"
proof (intro conjI allI impI ballI)
  show "useSimplifiedRendering (loadTracks particles vertex random startTime currentTime s)
     = (500 < length particles)"
    by (rule loadTracks_mode)
next
  fix k t
  assume k: "k < length particles" and "p_trajectory (particles ! k) = Some t \<and> 2 \<le> length t"
  then have t: "p_trajectory (particles ! k) = Some t" "2 \<le> length t" by simp_all
  from loadTracks_shows [OF k t, of vertex random startTime currentTime s] obtain ob
    where ob: "ob \<in> set (trackObjects (loadTracks particles vertex random startTime currentTime s))"
      "shows_particle (particles ! k) k ob"
      "if 500 < length particles \<and> 10 < length t
       then geometry ob = LineGeometry (simplifiedPoints t)
       else (case geometry ob of TubeGeometry pts radius \<Rightarrow> pts = t | _ \<Rightarrow> False)"
    by blast
  have "if 500 < length particles \<and> 10 < length t
                then geometry ob
                       = LineGeometry
                           (map (\<lambda>j. t ! (j * (length t div 8)))
                                [0..<(length t + length t div 8 - 1) div (length t div 8)]
                            @ [t ! (length t - 1)])
                     \<and> 8 \<le> (length t + length t div 8 - 1) div (length t div 8)
                     \<and> (length t + length t div 8 - 1) div (length t div 8) \<le> 15
                else (case geometry ob of TubeGeometry pts radius \<Rightarrow> pts = t | _ \<Rightarrow> False)"
  proof (cases "500 < length particles \<and> 10 < length t")
    case True
    then have e: "(500 < length particles \<and> 10 < length t) = True" by simp
    from True have l: "8 \<le> length t" "10 < length t" by simp_all
    from ob(3) have "geometry ob = LineGeometry (simplifiedPoints t)" unfolding e if_True .
    with simplifiedPoints_eq(1) [OF l(2)] sample_count_bounds [OF l(1)]
    show ?thesis unfolding e if_True by simp
  next
    case False
    then have e: "(500 < length particles \<and> 10 < length t) = False" by simp
    from ob(3) show ?thesis unfolding e if_False .
  qed
  with ob(1,2)
  show "\<exists>ob \<in> set (trackObjects (loadTracks particles vertex random startTime currentTime s)).
            shows_particle (particles ! k) k ob
            \<and> (if 500 < length particles \<and> 10 < length t
                then geometry ob
                       = LineGeometry
                           (map (\<lambda>j. t ! (j * (length t div 8)))
                                [0..<(length t + length t div 8 - 1) div (length t div 8)]
                            @ [t ! (length t - 1)])
                     \<and> 8 \<le> (length t + length t div 8 - 1) div (length t div 8)
                     \<and> (length t + length t div 8 - 1) div (length t div 8) \<le> 15
                else (case geometry ob of TubeGeometry pts radius \<Rightarrow> pts = t | _ \<Rightarrow> False))"
    by blast
next
  fix ob
  assume "ob \<in> set (trackObjects (loadTracks particles vertex random startTime currentTime s))"
  then have b: "built_as (500 < length particles) ob" by (rule loadTracks_built_as)
  show "case geometry ob of
           LineGeometry pts \<Rightarrow>
             500 < length particles \<and> 10 < length (td_trajectory (ud_trackData (userData ob)))
             \<and> pts = simplifiedPoints (td_trajectory (ud_trackData (userData ob)))
             \<and> last pts = last (td_trajectory (ud_trackData (userData ob)))
             \<and> length pts \<le> 16
         | _ \<Rightarrow> True"
  proof (cases "geometry ob")
    case (LineGeometry pts)
    with b have l: "500 < length particles" "10 < length (td_trajectory (ud_trackData (userData ob)))"
      "pts = simplifiedPoints (td_trajectory (ud_trackData (userData ob)))"
      by (simp_all add: built_as_def Let_def)
    from l(2) have "8 \<le> length (td_trajectory (ud_trackData (userData ob)))" by simp
    from sample_count_bounds(2) [OF this] simplifiedPoints_eq(2,3) [OF l(2)] l LineGeometry
    show ?thesis by simp
  qed simp_all
qed

theorem simplified_mode_witness:
  "useSimplifiedRendering crowded_state
   \<and> \<not> useSimplifiedRendering two_track_state
   \<and> (\<exists>ob \<in> set (trackObjects crowded_state). shows_particle long_track 0 ob
        \<and> geometry ob = LineGeometry [(0, 0, 0), (1, 0, 0), (2, 0, 0), (3, 0, 0), (4, 0, 0), (5, 0, 0),
                     (6, 0, 0), (7, 0, 0), (8, 0, 0), (9, 0, 0), (10, 0, 0), (10, 0, 0)])"
proof -
  note c = simplified_mode [of "replicate 501 long_track" "(0, 0, 0)" "\<lambda>index. 0" 0 0 constructor,
      folded crowded_state_def]
  note w = simplified_mode [of "[electron_track, muon_track]" "(0, 0, 0)" "\<lambda>index. 4 / 5" 0 0 constructor,
      folded two_track_state_def]
  have t: "p_trajectory long_track = Some [(0, 0, 0), (1, 0, 0), (2, 0, 0), (3, 0, 0), (4, 0, 0), (5, 0, 0),
                          (6, 0, 0), (7, 0, 0), (8, 0, 0), (9, 0, 0), (10, 0, 0)]"
    by (simp add: long_track_def)
  have up: "[0..<11] = [0, 1, 2, 3, 4, 5, 6, 7, 8, 9, 10]" by (simp add: upt_rec)
  have n: "replicate 501 long_track ! 0 = long_track" "length (replicate 501 long_track) = 501"
    by (simp_all only: nth_replicate length_replicate)
  note c0 = c [THEN conjunct2, THEN conjunct1, rule_format, of 0
      "[(0, 0, 0), (1, 0, 0), (2, 0, 0), (3, 0, 0), (4, 0, 0), (5, 0, 0),
        (6, 0, 0), (7, 0, 0), (8, 0, 0), (9, 0, 0), (10, 0, 0)]", unfolded n]
  from c0 t
  have "\<exists>ob \<in> set (trackObjects crowded_state). shows_particle long_track 0 ob
        \<and> geometry ob = LineGeometry [(0, 0, 0), (1, 0, 0), (2, 0, 0), (3, 0, 0), (4, 0, 0), (5, 0, 0),
                     (6, 0, 0), (7, 0, 0), (8, 0, 0), (9, 0, 0), (10, 0, 0), (10, 0, 0)]"
    by (simp add: up)
  moreover from c [THEN conjunct1, unfolded n] have "useSimplifiedRendering crowded_state" by simp
  moreover from w [THEN conjunct1] have "\<not> useSimplifiedRendering two_track_state" by simp
  ultimately show ?thesis by blast
qed

text \<open>
  C4 as stated fails on the number of points: in a batch of 501, a trajectory of eleven
  points has stride 1, so the line keeps all eleven points and then repeats the last.
\<close>

theorem simplified_mode_counterexample:
  "useSimplifiedRendering crowded_state
   \<and> geometry (trackObjects crowded_state ! 0)
     = LineGeometry [(0, 0, 0), (1, 0, 0), (2, 0, 0), (3, 0, 0), (4, 0, 0), (5, 0, 0),
                     (6, 0, 0), (7, 0, 0), (8, 0, 0), (9, 0, 0), (10, 0, 0), (10, 0, 0)]"
proof -
  have "useSimplifiedRendering crowded_state"
    unfolding crowded_state_def loadTracks_mode by (simp only: length_replicate)
  then show ?thesis by (simp add: crowded_first_object)
qed

subsection \<open>Animation and interaction\<close>

lemma animateFrame_idle: "\<not> isAnimating s \<Longrightarrow> animateFrame t s = s"
  by (simp add: animateFrame_def)

lemma animateFrame_complete_iff:
  assumes "isAnimating s"
  shows "isAnimating (animateFrame t s) = (t - animationStartTime s < 2000)"
    and "dispatched (animateFrame t s)
          = (if t - animationStartTime s < 2000 then dispatched s else dispatched s @ [TrackAnimationComplete])"
  using assms by (simp_all add: animateFrame_def Let_def animationDuration_def min_def)

lemma two_track_running:
  "isAnimating two_track_state" "animationStartTime two_track_state = 0"
  "dispatched two_track_state = []"
  "animatedTracks two_track_state
     = [\<lparr>mesh = 0, originalScale = 1, delay = 400\<rparr>, \<lparr>mesh = 2, originalScale = 1, delay = 400\<rparr>]"
  by (simp_all add: two_track_state_def electron_track_def muon_track_def tracks_eval)

text \<open>
  C2 does not hold of the code. The two sample tracks start at time 0 with a delay of
  400 ms each. The frame at time 2000 ends the animation and dispatches the completion
  event, although the local progress of both tracks is \<open>(2000 - 400) / 2000 = 0.8\<close> and
  their scale is \<open>1 - 0.2\<^sup>3 = 0.992\<close>; the frame test reads the global progress only.
  What the claim says of the time after completion does hold: a later frame changes nothing.
\<close>

theorem animation_completes_early:
  "isAnimating two_track_state
   \<and> \<not> isAnimating (animateFrame 2000 two_track_state)
   \<and> dispatched (animateFrame 2000 two_track_state) = [TrackAnimationComplete]
   \<and> map delay (animatedTracks (animateFrame 2000 two_track_state)) = [400, 400]
   \<and> min (max 0 ((2000 - animationStartTime two_track_state - 400) / 2000)) 1 = (4 / 5 :: real)
   \<and> scale (trackObjects (animateFrame 2000 two_track_state) ! 0) = 124 / 125
   \<and> animateFrame 2400 (animateFrame 2000 two_track_state) = animateFrame 2000 two_track_state"
proof -
  have a: "\<not> isAnimating (animateFrame 2000 two_track_state)"
    "dispatched (animateFrame 2000 two_track_state) = [TrackAnimationComplete]"
    using animateFrame_complete_iff [of two_track_state 2000] by (simp_all add: two_track_running)
  have b: "map delay (animatedTracks (animateFrame 2000 two_track_state)) = [400, 400]"
    by (simp add: animateFrame_def Let_def two_track_running)
  have c: "scale (trackObjects (animateFrame 2000 two_track_state) ! 0) = 124 / 125"
    by (simp add: two_track_state_def electron_track_def muon_track_def tracks_eval power3_eq_cube)
  have d: "animateFrame 2400 (animateFrame 2000 two_track_state) = animateFrame 2000 two_track_state"
    using a(1) by (rule animateFrame_idle)
  show ?thesis using a b c d by (simp add: two_track_running)
qed




lemma clearTracks_resets: "hoveredTrack (clearTracks s) = None \<and> selectedTrack (clearTracks s) = None"
  by (simp add: clearTracks_def)

lemma setMaterial_userData [simp]:
  "length (trackObjects (setMaterial i f s)) = length (trackObjects s)"
  "map userData (trackObjects (setMaterial i f s)) = map userData (trackObjects s)"
  by (simp_all add: setMaterial_def modify_map)


































end
